theory Spec2Isabelle
  imports Complex_Main
begin

section \<open>The RTQF fusion filter of RTIMULib\<close>

text \<open>
  This theory embeds \<^verbatim>\<open>src/RTIMULib/RTFusionRTQF.cpp\<close>: the constructor, \<^verbatim>\<open>reset\<close>,
  \<^verbatim>\<open>predict\<close>, \<^verbatim>\<open>update\<close> (both branches of \<^verbatim>\<open>#ifdef USE_SLERP\<close>) and
  \<^verbatim>\<open>newIMUData\<close>. The member functions mutate the filter object and the caller's
  \<^verbatim>\<open>RTIMU_DATA\<close> record in place; here each takes the object as a record and returns the
  updated one.

  \<^verbatim>\<open>RTFLOAT\<close> is read as \<^typ>\<open>real\<close>: rounding, overflow, infinities and NaN are not
  part of the model. Where the program divides, \<open>x / 0\<close> is \<open>0\<close> in HOL and not what
  the machine computes, so every statement that depends on a quotient carries the
  hypothesis that the divisor is not zero.
\<close>

subsection \<open>Vectors, quaternions and the 4x4 matrix\<close>

text \<open>
  The classes \<^verbatim>\<open>RTVector3\<close>, \<^verbatim>\<open>RTQuaternion\<close> and \<^verbatim>\<open>RTMatrix4x4\<close> are declared in
  \<^verbatim>\<open>RTMath.h\<close>, which is not among the sources. Their data is three, four and sixteen
  \<^verbatim>\<open>RTFLOAT\<close>s; the quaternion's components are read by \<^verbatim>\<open>scalar()\<close>, \<^verbatim>\<open>x()\<close>,
  \<^verbatim>\<open>y()\<close>, \<^verbatim>\<open>z()\<close>.
\<close>

record RTVector3 =
  vx :: real
  vy :: real
  vz :: real

record RTQuaternion =
  scalar :: real
  qx :: real
  qy :: real
  qz :: real

type_synonym RTMatrix4x4 = "nat \<Rightarrow> nat \<Rightarrow> real"

definition RTVector3_new :: RTVector3 where
  \<comment> \<open>Modelled from the spec: the default-constructed \<^verbatim>\<open>RTVector3()\<close> of \<^verbatim>\<open>RTMath\<close>
      ("zero pose"; a disabled gyro is "zeroing the rate input").\<close>
  "RTVector3_new = \<lparr>vx = 0, vy = 0, vz = 0\<rparr>"

definition RTQuaternion_new :: RTQuaternion where
  \<comment> \<open>Modelled from the spec: the default-constructed \<^verbatim>\<open>RTQuaternion()\<close> of \<^verbatim>\<open>RTMath\<close>,
      the error that lets "the predicted (gyro-only) quaternion pass through unmodified".\<close>
  "RTQuaternion_new = \<lparr>scalar = 0, qx = 0, qy = 0, qz = 0\<rparr>"

definition qadd :: "RTQuaternion \<Rightarrow> RTQuaternion \<Rightarrow> RTQuaternion" where
  \<comment> \<open>Modelled from the spec: \<^verbatim>\<open>RTQuaternion::operator +=\<close>, component-wise.\<close>
  "qadd a b = \<lparr>scalar = scalar a + scalar b, qx = qx a + qx b,
               qy = qy a + qy b, qz = qz a + qz b\<rparr>"

definition qsub :: "RTQuaternion \<Rightarrow> RTQuaternion \<Rightarrow> RTQuaternion" where
  \<comment> \<open>Modelled from the spec: \<^verbatim>\<open>RTQuaternion::operator -\<close>, "component-wise".\<close>
  "qsub a b = \<lparr>scalar = scalar a - scalar b, qx = qx a - qx b,
               qy = qy a - qy b, qz = qz a - qz b\<rparr>"

definition qscale :: "RTQuaternion \<Rightarrow> real \<Rightarrow> RTQuaternion" where
  \<comment> \<open>Modelled from the spec: \<^verbatim>\<open>RTQuaternion::operator *\<close> and \<^verbatim>\<open>*=\<close> with an
      \<^verbatim>\<open>RTFLOAT\<close>, the "scalar multiply".\<close>
  "qscale a k = \<lparr>scalar = scalar a * k, qx = qx a * k, qy = qy a * k, qz = qz a * k\<rparr>"

definition qmul :: "RTQuaternion \<Rightarrow> RTQuaternion \<Rightarrow> RTQuaternion" where
  \<comment> \<open>Modelled from the spec: \<^verbatim>\<open>RTQuaternion::operator *\<close> and \<^verbatim>\<open>*=\<close> with a
      quaternion, "multiplication (composition of rotations)": the Hamilton product.\<close>
  "qmul a b =
     \<lparr>scalar = scalar a * scalar b - qx a * qx b - qy a * qy b - qz a * qz b,
      qx = scalar a * qx b + qx a * scalar b + qy a * qz b - qz a * qy b,
      qy = scalar a * qy b - qx a * qz b + qy a * scalar b + qz a * qx b,
      qz = scalar a * qz b + qx a * qy b - qy a * qx b + qz a * scalar b\<rparr>"

definition conjugate :: "RTQuaternion \<Rightarrow> RTQuaternion" where
  \<comment> \<open>Modelled from the spec: \<^verbatim>\<open>RTQuaternion::conjugate\<close>.\<close>
  "conjugate a = \<lparr>scalar = scalar a, qx = - qx a, qy = - qy a, qz = - qz a\<rparr>"

definition qlength :: "RTQuaternion \<Rightarrow> real" where
  "qlength a = sqrt (scalar a * scalar a + qx a * qx a + qy a * qy a + qz a * qz a)"

definition normalizeQ :: "RTQuaternion \<Rightarrow> RTQuaternion" where
  \<comment> \<open>Modelled from the spec: \<^verbatim>\<open>RTQuaternion::normalize\<close>, "renormalizing to unit
      length". A quaternion of length zero has no multiple of unit length; it is
      returned as it is.\<close>
  "normalizeQ a =
     (let len = qlength a
      in if len = 0 then a
         else \<lparr>scalar = scalar a / len, qx = qx a / len, qy = qy a / len, qz = qz a / len\<rparr>)"

definition vlength :: "RTVector3 \<Rightarrow> real" where
  "vlength v = sqrt (vx v * vx v + vy v * vy v + vz v * vz v)"

definition normalizeV :: "RTVector3 \<Rightarrow> RTVector3" where
  \<comment> \<open>Modelled from the spec: \<^verbatim>\<open>RTVector3::normalize\<close>, as for the quaternion.\<close>
  "normalizeV v =
     (let len = vlength v
      in if len = 0 then v else \<lparr>vx = vx v / len, vy = vy v / len, vz = vz v / len\<rparr>)"

definition fill :: "real \<Rightarrow> RTMatrix4x4" where
  \<comment> \<open>\<^verbatim>\<open>RTMatrix4x4::fill\<close>: every entry becomes the value.\<close>
  "fill v = (\<lambda>row col. v)"

definition setVal :: "RTMatrix4x4 \<Rightarrow> nat \<Rightarrow> nat \<Rightarrow> real \<Rightarrow> RTMatrix4x4" where
  \<comment> \<open>\<^verbatim>\<open>RTMatrix4x4::setVal(row, col, val)\<close>.\<close>
  "setVal M row col v = M(row := (M row)(col := v))"

definition mat_mul_q :: "RTMatrix4x4 \<Rightarrow> RTQuaternion \<Rightarrow> RTQuaternion" where
  \<comment> \<open>Modelled from the spec: \<^verbatim>\<open>RTMatrix4x4::operator *\<close> with a quaternion,
      "\<open>stateQ_dot = Fk \<cdot> stateQ\<close>": the matrix applied to the column
      (scalar, x, y, z).\<close>
  "mat_mul_q M q =
     \<lparr>scalar = M 0 0 * scalar q + M 0 1 * qx q + M 0 2 * qy q + M 0 3 * qz q,
      qx = M 1 0 * scalar q + M 1 1 * qx q + M 1 2 * qy q + M 1 3 * qz q,
      qy = M 2 0 * scalar q + M 2 1 * qx q + M 2 2 * qy q + M 2 3 * qz q,
      qz = M 3 0 * scalar q + M 3 1 * qx q + M 3 2 * qy q + M 3 3 * qz q\<rparr>"

subsection \<open>The sample record, the settings and the filter object\<close>

text \<open>
  \<^verbatim>\<open>RTIMU_DATA\<close> and the members of the filter are declared in headers that are not
  among the sources; the records hold the fields that \<^verbatim>\<open>RTFusionRTQF.cpp\<close> reads or
  writes. The type of the timestamps is left open (\<open>'ts\<close>), and with it what the
  difference of two timestamps is when the second is the later one (with an unsigned
  type it wraps around and is not negative). The sample counter is an
  \<^typ>\<open>int\<close>; it is only ever incremented, and its overflow is outside the model.
  The object of a build with \<^verbatim>\<open>USE_SLERP\<close> has \<open>m_slerpPower\<close>, \<open>m_rotationDelta\<close>,
  \<open>m_rotationPower\<close> and \<open>m_rotationUnitVector\<close>, that of a build without it has \<open>m_Q\<close>,
  \<open>m_R\<close> and \<open>m_stateQError\<close>; the record has them all.
\<close>

record 'ts RTIMU_DATA =
  timestamp :: 'ts
  fusionPoseValid :: bool
  fusionPose :: RTVector3
  fusionQPoseValid :: bool
  fusionQPose :: RTQuaternion
  gyro :: RTVector3
  accel :: RTVector3
  compass :: RTVector3
  compassValid :: bool

record RTIMUSettings =
  m_compassAdjDeclination :: real

record 'ts RTFusionRTQF =
  m_debug :: bool
  m_enableGyro :: bool
  m_enableAccel :: bool
  m_enableCompass :: bool
  m_compassValid :: bool
  m_firstTime :: bool
  m_timeDelta :: real
  m_lastFusionTime :: 'ts
  m_sampleNumber :: int
  m_gyro :: RTVector3
  m_accel :: RTVector3
  m_compass :: RTVector3
  m_measuredPose :: RTVector3
  m_measuredQPose :: RTQuaternion
  m_fusionPose :: RTVector3
  m_fusionQPose :: RTQuaternion
  m_stateQ :: RTQuaternion
  m_stateQError :: RTQuaternion
  m_Fk :: RTMatrix4x4
  m_Q :: real
  m_R :: real
  m_slerpPower :: real
  m_rotationDelta :: RTQuaternion
  m_rotationPower :: RTQuaternion
  m_rotationUnitVector :: RTVector3

subsection \<open>What the file takes from elsewhere\<close>

text \<open>
  The build and the code that \<^verbatim>\<open>RTFusionRTQF.cpp\<close> calls but does not contain are
  parameters of the model, so that every theorem holds for each of them:
  \<^item> \<open>USE_SLERP\<close>: whether the macro is defined in the build;
  \<^item> \<open>tsDiff a b\<close>: the value of \<^verbatim>\<open>(RTFLOAT)(a - b)\<close> on two timestamps;
  \<^item> \<open>fromEuler\<close>, \<open>toEuler\<close>: the conversions of \<^verbatim>\<open>RTQuaternion\<close>;
  \<^item> \<open>calculatePose\<close>: the measured pose that \<^verbatim>\<open>RTFusion::calculatePose\<close> computes
    from the object, the acceleration, the compass reading and the declination, as
    the pair of its Euler and quaternion forms.
\<close>

record 'ts RTEnv =
  USE_SLERP :: bool
  tsDiff :: "'ts \<Rightarrow> 'ts \<Rightarrow> real"
  fromEuler :: "RTVector3 \<Rightarrow> RTQuaternion"
  toEuler :: "RTQuaternion \<Rightarrow> RTVector3"
  calculatePose :: "'ts RTFusionRTQF \<Rightarrow> RTVector3 \<Rightarrow> RTVector3 \<Rightarrow> real
                    \<Rightarrow> RTVector3 \<times> RTQuaternion"

definition runCalculatePose ::
  "'ts RTEnv \<Rightarrow> RTVector3 \<Rightarrow> RTVector3 \<Rightarrow> real \<Rightarrow> 'ts RTFusionRTQF \<Rightarrow> 'ts RTFusionRTQF" where
  \<comment> \<open>Modelled from the spec: the call of \<^verbatim>\<open>RTFusion::calculatePose\<close>, which has
      "no side effects beyond writing \<open>measuredPose\<close>/\<open>measuredQPose\<close>".\<close>
  "runCalculatePose E a c decl st =
     (let pq = calculatePose E st a c decl
      in st\<lparr>m_measuredPose := fst pq, m_measuredQPose := snd pq\<rparr>)"

subsection \<open>Constructor and reset\<close>

definition RTQF_SLERP_POWER :: real where
  "RTQF_SLERP_POWER = 0.02"

definition RTQF_QVALUE :: real where
  "RTQF_QVALUE = 0.001"

definition RTQF_RVALUE :: real where
  "RTQF_RVALUE = 0.0005"

definition reset :: "'ts RTEnv \<Rightarrow> 'ts RTFusionRTQF \<Rightarrow> 'ts RTFusionRTQF" where
  "reset E st =
     (let st = st\<lparr>m_firstTime := True\<rparr>;
          st = st\<lparr>m_fusionPose := RTVector3_new\<rparr>;
          st = st\<lparr>m_fusionQPose := fromEuler E (m_fusionPose st)\<rparr>;
          st = st\<lparr>m_gyro := RTVector3_new\<rparr>;
          st = st\<lparr>m_accel := RTVector3_new\<rparr>;
          st = st\<lparr>m_compass := RTVector3_new\<rparr>;
          st = st\<lparr>m_measuredPose := RTVector3_new\<rparr>;
          st = st\<lparr>m_measuredQPose := fromEuler E (m_measuredPose st)\<rparr>
      in st\<lparr>m_sampleNumber := 0\<rparr>)"

definition RTFusionRTQF_new :: "'ts RTEnv \<Rightarrow> 'ts RTFusionRTQF \<Rightarrow> 'ts RTFusionRTQF" where
  \<comment> \<open>The constructor, on the object as the base class's constructor left it.\<close>
  "RTFusionRTQF_new E st =
     reset E (if USE_SLERP E then st\<lparr>m_slerpPower := RTQF_SLERP_POWER\<rparr>
              else st\<lparr>m_Q := RTQF_QVALUE, m_R := RTQF_RVALUE\<rparr>)"

subsection \<open>The predict step\<close>

definition predict :: "'ts RTFusionRTQF \<Rightarrow> 'ts RTFusionRTQF" where
  "predict st =
     (let x2 = vx (m_gyro st) / 2;
          y2 = vy (m_gyro st) / 2;
          z2 = vz (m_gyro st) / 2;
          Fk = m_Fk st;
          Fk = setVal Fk 0 1 (- x2);
          Fk = setVal Fk 0 2 (- y2);
          Fk = setVal Fk 0 3 (- z2);
          Fk = setVal Fk 1 0 x2;
          Fk = setVal Fk 1 2 z2;
          Fk = setVal Fk 1 3 (- y2);
          Fk = setVal Fk 2 0 y2;
          Fk = setVal Fk 2 1 (- z2);
          Fk = setVal Fk 2 3 x2;
          Fk = setVal Fk 3 0 z2;
          Fk = setVal Fk 3 1 y2;
          Fk = setVal Fk 3 2 (- x2);
          tQuat = mat_mul_q Fk (m_stateQ st);
          tQuat = qscale tQuat (m_timeDelta st)
      in st\<lparr>m_Fk := Fk, m_stateQ := qadd (m_stateQ st) tQuat\<rparr>)"

subsection \<open>The update step\<close>

definition update_slerp :: "'ts RTFusionRTQF \<Rightarrow> 'ts RTFusionRTQF" where
  \<comment> \<open>The branch \<^verbatim>\<open>#ifdef USE_SLERP\<close> of \<^verbatim>\<open>update\<close>, before the final \<^verbatim>\<open>normalize\<close>.
      \<^verbatim>\<open>acos\<close>, \<^verbatim>\<open>sin\<close> and \<^verbatim>\<open>cos\<close> are the functions of the same name on the reals;
      the argument of \<^verbatim>\<open>acos\<close> is passed as it is.\<close>
  "update_slerp st =
     (if m_enableCompass st \<or> m_enableAccel st then
        (let rotationDelta = normalizeQ (qmul (conjugate (m_stateQ st)) (m_measuredQPose st));
             theta = arccos (scalar rotationDelta);
             sinPowerTheta = sin (theta * m_slerpPower st);
             cosPowerTheta = cos (theta * m_slerpPower st);
             rotationUnitVector =
               normalizeV \<lparr>vx = qx rotationDelta, vy = qy rotationDelta, vz = qz rotationDelta\<rparr>;
             rotationPower =
               normalizeQ \<lparr>scalar = cosPowerTheta,
                           qx = sinPowerTheta * vx rotationUnitVector,
                           qy = sinPowerTheta * vy rotationUnitVector,
                           qz = sinPowerTheta * vz rotationUnitVector\<rparr>
         in st\<lparr>m_rotationDelta := rotationDelta,
               m_rotationUnitVector := rotationUnitVector,
               m_rotationPower := rotationPower,
               m_stateQ := qmul (m_stateQ st) rotationPower\<rparr>)
      else st)"

definition update_linear :: "'ts RTFusionRTQF \<Rightarrow> 'ts RTFusionRTQF" where
  \<comment> \<open>The branch \<^verbatim>\<open>#else\<close> of \<^verbatim>\<open>update\<close>, before the final \<^verbatim>\<open>normalize\<close>.\<close>
  "update_linear st =
     (let stateQError =
            (if m_enableCompass st \<or> m_enableAccel st
             then qsub (m_measuredQPose st) (m_stateQ st)
             else RTQuaternion_new);
          qt = m_Q st * m_timeDelta st
      in st\<lparr>m_stateQError := stateQError,
            m_stateQ := qadd (m_stateQ st) (qscale stateQError (qt / (qt + m_R st)))\<rparr>)"

definition update :: "'ts RTEnv \<Rightarrow> 'ts RTFusionRTQF \<Rightarrow> 'ts RTFusionRTQF" where
  "update E st =
     (let st = (if USE_SLERP E then update_slerp st else update_linear st)
      in st\<lparr>m_stateQ := normalizeQ (m_stateQ st)\<rparr>)"

subsection \<open>Ingesting a sample\<close>

definition publish :: "'ts RTFusionRTQF \<Rightarrow> 'ts RTIMU_DATA \<Rightarrow> 'ts RTIMU_DATA" where
  \<comment> \<open>The last four statements of \<^verbatim>\<open>newIMUData\<close>, on the caller's record.\<close>
  "publish st data =
     data\<lparr>fusionPoseValid := True, fusionQPoseValid := True,
          fusionPose := m_fusionPose st, fusionQPose := m_fusionQPose st\<rparr>"

definition newIMUData ::
  "'ts RTEnv \<Rightarrow> 'ts RTIMU_DATA \<Rightarrow> RTIMUSettings \<Rightarrow> 'ts RTFusionRTQF
   \<Rightarrow> 'ts RTFusionRTQF \<times> 'ts RTIMU_DATA" where
  \<comment> \<open>The trace lines of \<^verbatim>\<open>HAL_INFO\<close> go to the console and are not part of the
      result; the argument \<^verbatim>\<open>m_sampleNumber++\<close> of \<^verbatim>\<open>HAL_INFO2\<close> is evaluated when the
      line is printed and changes the object.\<close>
  "newIMUData E data settings st =
     (let st = (if m_debug st then st\<lparr>m_sampleNumber := m_sampleNumber st + 1\<rparr> else st);
          st = st\<lparr>m_sampleNumber := m_sampleNumber st + 1\<rparr>;
          st = st\<lparr>m_gyro := (if m_enableGyro st then gyro data else RTVector3_new)\<rparr>;
          st = st\<lparr>m_accel := accel data\<rparr>;
          st = st\<lparr>m_compass := compass data\<rparr>;
          st = st\<lparr>m_compassValid := compassValid data\<rparr>
      in if m_firstTime st then
           (let st = st\<lparr>m_lastFusionTime := timestamp data\<rparr>;
                st = runCalculatePose E (m_accel st) (m_compass st)
                       (m_compassAdjDeclination settings) st;
                st = st\<lparr>m_Fk := fill 0\<rparr>;
                st = st\<lparr>m_stateQ := fromEuler E (m_measuredPose st)\<rparr>;
                st = st\<lparr>m_fusionQPose := m_stateQ st\<rparr>;
                st = st\<lparr>m_fusionPose := m_measuredPose st\<rparr>;
                st = st\<lparr>m_firstTime := False\<rparr>
            in (st, publish st data))
         else
           (let st = st\<lparr>m_timeDelta :=
                         tsDiff E (timestamp data) (m_lastFusionTime st) / 1000000\<rparr>;
                st = st\<lparr>m_lastFusionTime := timestamp data\<rparr>
            in if m_timeDelta st \<le> 0 then (st, data)
               else
                 (let st = runCalculatePose E (accel data) (compass data)
                             (m_compassAdjDeclination settings) st;
                      st = predict st;
                      st = update E st;
                      st = st\<lparr>m_fusionPose := toEuler E (m_stateQ st)\<rparr>;
                      st = st\<lparr>m_fusionQPose := m_stateQ st\<rparr>
                  in (st, publish st data))))"

subsection \<open>Names for the intermediate states of a call\<close>

text \<open>
  \<open>timeDeltaOf\<close> is the value that the call computes for \<open>m_timeDelta\<close> on a sample
  that is not the first; \<open>sampleStored\<close> is the object after the counter and the raw
  inputs are written (up to \<^verbatim>\<open>m_compassValid = data.compassValid\<close>); \<open>sampleTimed\<close> is
  the object after \<open>m_timeDelta\<close> and \<open>m_lastFusionTime\<close> are written as well, where the
  test \<^verbatim>\<open>m_timeDelta <= 0\<close> is made; \<open>samplePredicted\<close> is the object that \<^verbatim>\<open>update\<close>
  receives on an accepted sample.
\<close>

definition timeDeltaOf :: "'ts RTEnv \<Rightarrow> 'ts RTIMU_DATA \<Rightarrow> 'ts RTFusionRTQF \<Rightarrow> real" where
  "timeDeltaOf E data st = tsDiff E (timestamp data) (m_lastFusionTime st) / 1000000"

definition sampleStored :: "'ts RTIMU_DATA \<Rightarrow> 'ts RTFusionRTQF \<Rightarrow> 'ts RTFusionRTQF" where
  "sampleStored data st =
     st\<lparr>m_sampleNumber :=
          (if m_debug st then m_sampleNumber st + 1 + 1 else m_sampleNumber st + 1),
        m_gyro := (if m_enableGyro st then gyro data else RTVector3_new),
        m_accel := accel data, m_compass := compass data,
        m_compassValid := compassValid data\<rparr>"

definition sampleTimed ::
  "'ts RTEnv \<Rightarrow> 'ts RTIMU_DATA \<Rightarrow> 'ts RTFusionRTQF \<Rightarrow> 'ts RTFusionRTQF" where
  "sampleTimed E data st =
     (sampleStored data st)\<lparr>m_timeDelta := timeDeltaOf E data st,
                             m_lastFusionTime := timestamp data\<rparr>"

definition samplePredicted ::
  "'ts RTEnv \<Rightarrow> 'ts RTIMU_DATA \<Rightarrow> RTIMUSettings \<Rightarrow> 'ts RTFusionRTQF \<Rightarrow> 'ts RTFusionRTQF" where
  "samplePredicted E data settings st =
     predict (runCalculatePose E (accel data) (compass data)
                (m_compassAdjDeclination settings) (sampleTimed E data st))"

subsection \<open>An environment to run the filter in\<close>

text \<open>
  The theorems below hold for every environment. To apply them to concrete calls, the
  parameters are instantiated as follows: timestamps are integers, the conversions
  between Euler angles and quaternions are the usual ones for roll, pitch and yaw, and
  \<open>calculatePose\<close> measures the attitude at which the sensor is held. These stand in
  for library code that is not among the sources; no theorem about the filter depends
  on them.
\<close>

definition eulerQ :: "RTVector3 \<Rightarrow> RTQuaternion" where
  "eulerQ e =
     (let cosX2 = cos (vx e / 2); sinX2 = sin (vx e / 2);
          cosY2 = cos (vy e / 2); sinY2 = sin (vy e / 2);
          cosZ2 = cos (vz e / 2); sinZ2 = sin (vz e / 2)
      in \<lparr>scalar = cosX2 * cosY2 * cosZ2 + sinX2 * sinY2 * sinZ2,
          qx = sinX2 * cosY2 * cosZ2 - cosX2 * sinY2 * sinZ2,
          qy = cosX2 * sinY2 * cosZ2 + sinX2 * cosY2 * sinZ2,
          qz = cosX2 * cosY2 * sinZ2 - sinX2 * sinY2 * cosZ2\<rparr>)"

definition atan2 :: "real \<Rightarrow> real \<Rightarrow> real" where
  "atan2 y x =
     (if 0 < x then arctan (y / x)
      else if x < 0 then (if 0 \<le> y then arctan (y / x) + pi else arctan (y / x) - pi)
      else if 0 < y then pi / 2 else if y < 0 then - (pi / 2) else 0)"

definition qEuler :: "RTQuaternion \<Rightarrow> RTVector3" where
  "qEuler q =
     \<lparr>vx = atan2 (2 * (qy q * qz q + scalar q * qx q)) (1 - 2 * (qx q * qx q + qy q * qy q)),
      vy = arcsin (2 * (scalar q * qy q - qx q * qz q)),
      vz = atan2 (2 * (qx q * qy q + scalar q * qz q)) (1 - 2 * (qy q * qy q + qz q * qz q))\<rparr>"

definition heldAt :: "bool \<Rightarrow> RTVector3 \<Rightarrow> int RTEnv" where
  \<comment> \<open>The build (with or without \<^verbatim>\<open>USE_SLERP\<close>) and the attitude of the sensor.\<close>
  "heldAt slerp pose =
     \<lparr>USE_SLERP = slerp,
      tsDiff = (\<lambda>a b. real_of_int (a - b)),
      fromEuler = eulerQ,
      toEuler = qEuler,
      calculatePose = (\<lambda>st a c decl. (pose, eulerQ pose))\<rparr>"

definition level :: RTVector3 where
  "level = \<lparr>vx = 0, vy = 0, vz = 0\<rparr>"

definition south :: RTVector3 where
  \<comment> \<open>Level, turned half a turn about the vertical.\<close>
  "south = \<lparr>vx = 0, vy = 0, vz = pi\<rparr>"

definition still :: RTVector3 where
  \<comment> \<open>Rates of turn, in radians per second: at rest, and about the x axis.\<close>
  "still = \<lparr>vx = 0, vy = 0, vz = 0\<rparr>"

definition spin :: RTVector3 where
  "spin = \<lparr>vx = 1, vy = 0, vz = 0\<rparr>"

definition created :: "int RTEnv \<Rightarrow> int RTFusionRTQF" where
  \<comment> \<open>A newly constructed filter: debugging off, every source enabled.\<close>
  "created E =
     RTFusionRTQF_new E
       \<lparr>m_debug = False, m_enableGyro = True, m_enableAccel = True, m_enableCompass = True,
        m_compassValid = False, m_firstTime = True, m_timeDelta = 0, m_lastFusionTime = 0,
        m_sampleNumber = 0, m_gyro = RTVector3_new, m_accel = RTVector3_new,
        m_compass = RTVector3_new, m_measuredPose = RTVector3_new,
        m_measuredQPose = RTQuaternion_new, m_fusionPose = RTVector3_new,
        m_fusionQPose = RTQuaternion_new, m_stateQ = RTQuaternion_new,
        m_stateQError = RTQuaternion_new, m_Fk = fill 0, m_Q = 0, m_R = 0, m_slerpPower = 0,
        m_rotationDelta = RTQuaternion_new, m_rotationPower = RTQuaternion_new,
        m_rotationUnitVector = RTVector3_new\<rparr>"

definition sample :: "int \<Rightarrow> RTVector3 \<Rightarrow> int RTIMU_DATA" where
  \<comment> \<open>A sample with the given timestamp (microseconds) and rate of turn. The raw
      acceleration and compass reading are not interpreted by \<open>heldAt\<close>.\<close>
  "sample t rate =
     \<lparr>timestamp = t, fusionPoseValid = False, fusionPose = RTVector3_new,
      fusionQPoseValid = False, fusionQPose = RTQuaternion_new, gyro = rate,
      accel = \<lparr>vx = 0, vy = 0, vz = 1\<rparr>, compass = \<lparr>vx = 1, vy = 0, vz = 0\<rparr>,
      compassValid = True\<rparr>"

definition noDeclination :: RTIMUSettings where
  "noDeclination = \<lparr>m_compassAdjDeclination = 0\<rparr>"

definition running :: "bool \<Rightarrow> int RTFusionRTQF" where
  \<comment> \<open>The filter after its first sample, taken at time 0 with the sensor level and at
      rest.\<close>
  "running slerp =
     fst (newIMUData (heldAt slerp level) (sample 0 still) noDeclination
            (created (heldAt slerp level)))"

definition reportedAs :: "bool \<Rightarrow> RTVector3 \<Rightarrow> RTQuaternion \<Rightarrow> int RTEnv" where
  \<comment> \<open>As \<open>heldAt\<close>, with the quaternion that \<open>calculatePose\<close> reports given on its own: a
      rotation has two unit quaternions, \<open>q\<close> and \<open>-q\<close>.\<close>
  "reportedAs slerp pose q = (heldAt slerp pose)\<lparr>calculatePose := (\<lambda>st a c decl. (pose, q))\<rparr>"

section \<open>Lemmas\<close>

subsection \<open>Lengths and products of quaternions\<close>

lemma qlength_nonneg: "0 \<le> qlength a"
  by (simp add: qlength_def)

lemma qlength_sq:
  "qlength a * qlength a = scalar a * scalar a + qx a * qx a + qy a * qy a + qz a * qz a"
  by (simp add: qlength_def)

lemma qlength_zero_iff:
  "qlength a = 0 \<longleftrightarrow> scalar a = 0 \<and> qx a = 0 \<and> qy a = 0 \<and> qz a = 0"
proof -
  have "scalar a * scalar a + qx a * qx a + qy a * qy a + qz a * qz a = 0
        \<longleftrightarrow> scalar a = 0 \<and> qx a = 0 \<and> qy a = 0 \<and> qz a = 0"
    by (smt (verit) mult_eq_0_iff zero_le_square)
  then show ?thesis by (simp add: qlength_def)
qed

lemma normalizeQ_as_qscale: "normalizeQ a = qscale a (1 / qlength a)"
  by (cases "qlength a = 0") (simp_all add: normalizeQ_def Let_def qscale_def qlength_zero_iff)

lemma qlength_qscale: "qlength (qscale a k) = \<bar>k\<bar> * qlength a"
proof -
  have "scalar a * k * (scalar a * k) + qx a * k * (qx a * k) + qy a * k * (qy a * k)
          + qz a * k * (qz a * k)
        = (k * k) * (scalar a * scalar a + qx a * qx a + qy a * qy a + qz a * qz a)"
    by (simp add: algebra_simps)
  then show ?thesis
    by (simp add: qlength_def qscale_def real_sqrt_mult)
qed

lemma qlength_normalizeQ:
  "qlength (normalizeQ a) = (if qlength a = 0 then 0 else 1)"
  using qlength_nonneg [of a]
  by (simp add: normalizeQ_as_qscale qlength_qscale)

lemma normalizeQ_unit: "qlength a = 1 \<Longrightarrow> normalizeQ a = a"
  by (simp add: normalizeQ_def Let_def)

lemma normalizeQ_idem: "normalizeQ (normalizeQ a) = normalizeQ a"
proof (cases "qlength a = 0")
  case True
  then show ?thesis by (simp add: normalizeQ_def Let_def)
next
  case False
  then have "qlength (normalizeQ a) = 1" by (simp add: qlength_normalizeQ)
  then show ?thesis by (rule normalizeQ_unit)
qed

lemma qlength_qmul: "qlength (qmul a b) = qlength a * qlength b"
proof -
  have "scalar (qmul a b) * scalar (qmul a b) + qx (qmul a b) * qx (qmul a b)
        + qy (qmul a b) * qy (qmul a b) + qz (qmul a b) * qz (qmul a b)
      = (scalar a * scalar a + qx a * qx a + qy a * qy a + qz a * qz a)
        * (scalar b * scalar b + qx b * qx b + qy b * qy b + qz b * qz b)"
    by (simp add: qmul_def algebra_simps)
  then show ?thesis
    by (simp add: qlength_def real_sqrt_mult)
qed

lemma qlength_conjugate: "qlength (conjugate a) = qlength a"
  by (simp add: qlength_def conjugate_def)

lemma qmul_one: "qmul a \<lparr>scalar = 1, qx = 0, qy = 0, qz = 0\<rparr> = a"
  by (simp add: qmul_def)

lemma qmul_conjugate_cancel:
  "qmul a (qmul (conjugate a) b) = qscale b (qlength a * qlength a)"
  by (simp add: qmul_def conjugate_def qscale_def qlength_sq algebra_simps)

lemma qmul_qscale_right: "qmul a (qscale b k) = qscale (qmul a b) k"
  by (simp add: qmul_def qscale_def algebra_simps)

lemma zero_length_eq: "qlength a = 0 \<Longrightarrow> a = RTQuaternion_new"
  by (simp add: qlength_zero_iff RTQuaternion_new_def)

lemma normalizeQ_zero: "normalizeQ RTQuaternion_new = RTQuaternion_new"
  by (simp add: normalizeQ_def Let_def RTQuaternion_new_def qlength_def)

lemma qmul_zero_right: "qmul a RTQuaternion_new = RTQuaternion_new"
  by (simp add: qmul_def RTQuaternion_new_def)

subsection \<open>The rotation of the slerp update\<close>

lemma vlength_nonneg: "0 \<le> vlength v"
  by (simp add: vlength_def)

lemma vlength_zero_iff: "vlength v = 0 \<longleftrightarrow> vx v = 0 \<and> vy v = 0 \<and> vz v = 0"
proof -
  have "vx v * vx v + vy v * vy v + vz v * vz v = 0 \<longleftrightarrow> vx v = 0 \<and> vy v = 0 \<and> vz v = 0"
    by (smt (verit) mult_eq_0_iff zero_le_square)
  then show ?thesis by (simp add: vlength_def)
qed

lemma unit_scalar_bounds:
  assumes "qlength d = 1"
  shows "- 1 \<le> scalar d" and "scalar d \<le> 1"
    and "sqrt (1 - (scalar d)\<^sup>2) = vlength \<lparr>vx = qx d, vy = qy d, vz = qz d\<rparr>"
proof -
  have sq: "scalar d * scalar d + qx d * qx d + qy d * qy d + qz d * qz d = 1"
    using assms qlength_sq [of d] by simp
  have "scalar d * scalar d \<le> 1"
    using sq by (smt (verit) zero_le_square)
  then have "(scalar d)\<^sup>2 \<le> 1" by (simp add: power2_eq_square)
  then have "\<bar>scalar d\<bar> \<le> 1" by (simp add: abs_square_le_1)
  then show "- 1 \<le> scalar d" and "scalar d \<le> 1" by simp_all
  have "1 - (scalar d)\<^sup>2 = qx d * qx d + qy d * qy d + qz d * qz d"
    using sq by (simp add: power2_eq_square)
  then show "sqrt (1 - (scalar d)\<^sup>2) = vlength \<lparr>vx = qx d, vy = qy d, vz = qz d\<rparr>"
    by (simp add: vlength_def)
qed

lemma rotation_full_power:
  assumes "qlength d = 1"
  shows "\<lparr>scalar = cos (arccos (scalar d)),
          qx = sin (arccos (scalar d)) * vx (normalizeV \<lparr>vx = qx d, vy = qy d, vz = qz d\<rparr>),
          qy = sin (arccos (scalar d)) * vy (normalizeV \<lparr>vx = qx d, vy = qy d, vz = qz d\<rparr>),
          qz = sin (arccos (scalar d)) * vz (normalizeV \<lparr>vx = qx d, vy = qy d, vz = qz d\<rparr>)\<rparr> = d"
proof -
  let ?v = "\<lparr>vx = qx d, vy = qy d, vz = qz d\<rparr>"
  note b = unit_scalar_bounds [OF assms]
  have c: "cos (arccos (scalar d)) = scalar d" using b by simp
  have s: "sin (arccos (scalar d)) = vlength ?v" using b by (simp add: sin_arccos)
  have "vlength ?v * vx (normalizeV ?v) = qx d" "vlength ?v * vy (normalizeV ?v) = qy d"
       "vlength ?v * vz (normalizeV ?v) = qz d"
    using vlength_zero_iff [of ?v] by (auto simp add: normalizeV_def Let_def)
  then show ?thesis using c s by simp
qed

lemma update_slerp_stateQ:
  assumes "m_enableCompass st \<or> m_enableAccel st"
  shows "m_stateQ (update_slerp st) =
    (let rotationDelta = normalizeQ (qmul (conjugate (m_stateQ st)) (m_measuredQPose st));
         theta = arccos (scalar rotationDelta);
         u = normalizeV \<lparr>vx = qx rotationDelta, vy = qy rotationDelta, vz = qz rotationDelta\<rparr>
     in qmul (m_stateQ st)
          (normalizeQ \<lparr>scalar = cos (theta * m_slerpPower st),
                       qx = sin (theta * m_slerpPower st) * vx u,
                       qy = sin (theta * m_slerpPower st) * vy u,
                       qz = sin (theta * m_slerpPower st) * vz u\<rparr>))"
  using assms by (simp add: update_slerp_def Let_def)

lemma slerp_degenerate:
  "\<lparr>scalar = cos (arccos (scalar RTQuaternion_new)),
    qx = sin (arccos (scalar RTQuaternion_new))
           * vx (normalizeV \<lparr>vx = qx RTQuaternion_new, vy = qy RTQuaternion_new, vz = qz RTQuaternion_new\<rparr>),
    qy = sin (arccos (scalar RTQuaternion_new))
           * vy (normalizeV \<lparr>vx = qx RTQuaternion_new, vy = qy RTQuaternion_new, vz = qz RTQuaternion_new\<rparr>),
    qz = sin (arccos (scalar RTQuaternion_new))
           * vz (normalizeV \<lparr>vx = qx RTQuaternion_new, vy = qy RTQuaternion_new, vz = qz RTQuaternion_new\<rparr>)\<rparr>
   = RTQuaternion_new"
  by (simp add: RTQuaternion_new_def normalizeV_def Let_def vlength_def)

lemma slerp_zero_power:
  assumes "m_enableCompass st \<or> m_enableAccel st" and "m_slerpPower st = 0"
  shows "m_stateQ (update_slerp st) = m_stateQ st"
  using assms by (simp add: update_slerp_stateQ Let_def normalizeQ_def qlength_def qmul_def)

subsection \<open>What each step leaves alone\<close>

lemma runCalculatePose_frame [simp]:
  "m_debug (runCalculatePose E a c d st) = m_debug st"
  "m_enableGyro (runCalculatePose E a c d st) = m_enableGyro st"
  "m_enableAccel (runCalculatePose E a c d st) = m_enableAccel st"
  "m_enableCompass (runCalculatePose E a c d st) = m_enableCompass st"
  "m_compassValid (runCalculatePose E a c d st) = m_compassValid st"
  "m_firstTime (runCalculatePose E a c d st) = m_firstTime st"
  "m_timeDelta (runCalculatePose E a c d st) = m_timeDelta st"
  "m_lastFusionTime (runCalculatePose E a c d st) = m_lastFusionTime st"
  "m_sampleNumber (runCalculatePose E a c d st) = m_sampleNumber st"
  "m_gyro (runCalculatePose E a c d st) = m_gyro st"
  "m_accel (runCalculatePose E a c d st) = m_accel st"
  "m_compass (runCalculatePose E a c d st) = m_compass st"
  "m_fusionPose (runCalculatePose E a c d st) = m_fusionPose st"
  "m_fusionQPose (runCalculatePose E a c d st) = m_fusionQPose st"
  "m_stateQ (runCalculatePose E a c d st) = m_stateQ st"
  "m_stateQError (runCalculatePose E a c d st) = m_stateQError st"
  "m_Fk (runCalculatePose E a c d st) = m_Fk st"
  "m_Q (runCalculatePose E a c d st) = m_Q st"
  "m_R (runCalculatePose E a c d st) = m_R st"
  "m_slerpPower (runCalculatePose E a c d st) = m_slerpPower st"
  "m_rotationDelta (runCalculatePose E a c d st) = m_rotationDelta st"
  "m_rotationPower (runCalculatePose E a c d st) = m_rotationPower st"
  "m_rotationUnitVector (runCalculatePose E a c d st) = m_rotationUnitVector st"
  "m_measuredPose (runCalculatePose E a c d st) = fst (calculatePose E st a c d)"
  "m_measuredQPose (runCalculatePose E a c d st) = snd (calculatePose E st a c d)"
  by (simp_all add: runCalculatePose_def Let_def)

lemma predict_frame [simp]:
  "m_debug (predict st) = m_debug st"
  "m_enableGyro (predict st) = m_enableGyro st"
  "m_enableAccel (predict st) = m_enableAccel st"
  "m_enableCompass (predict st) = m_enableCompass st"
  "m_compassValid (predict st) = m_compassValid st"
  "m_firstTime (predict st) = m_firstTime st"
  "m_timeDelta (predict st) = m_timeDelta st"
  "m_lastFusionTime (predict st) = m_lastFusionTime st"
  "m_sampleNumber (predict st) = m_sampleNumber st"
  "m_gyro (predict st) = m_gyro st"
  "m_accel (predict st) = m_accel st"
  "m_compass (predict st) = m_compass st"
  "m_measuredPose (predict st) = m_measuredPose st"
  "m_measuredQPose (predict st) = m_measuredQPose st"
  "m_fusionPose (predict st) = m_fusionPose st"
  "m_fusionQPose (predict st) = m_fusionQPose st"
  "m_stateQError (predict st) = m_stateQError st"
  "m_Q (predict st) = m_Q st"
  "m_R (predict st) = m_R st"
  "m_slerpPower (predict st) = m_slerpPower st"
  "m_rotationDelta (predict st) = m_rotationDelta st"
  "m_rotationPower (predict st) = m_rotationPower st"
  "m_rotationUnitVector (predict st) = m_rotationUnitVector st"
  by (simp_all add: predict_def Let_def)

lemma update_slerp_frame [simp]:
  "m_debug (update_slerp st) = m_debug st"
  "m_enableGyro (update_slerp st) = m_enableGyro st"
  "m_enableAccel (update_slerp st) = m_enableAccel st"
  "m_enableCompass (update_slerp st) = m_enableCompass st"
  "m_compassValid (update_slerp st) = m_compassValid st"
  "m_firstTime (update_slerp st) = m_firstTime st"
  "m_timeDelta (update_slerp st) = m_timeDelta st"
  "m_lastFusionTime (update_slerp st) = m_lastFusionTime st"
  "m_sampleNumber (update_slerp st) = m_sampleNumber st"
  "m_gyro (update_slerp st) = m_gyro st"
  "m_accel (update_slerp st) = m_accel st"
  "m_compass (update_slerp st) = m_compass st"
  "m_measuredPose (update_slerp st) = m_measuredPose st"
  "m_measuredQPose (update_slerp st) = m_measuredQPose st"
  "m_fusionPose (update_slerp st) = m_fusionPose st"
  "m_fusionQPose (update_slerp st) = m_fusionQPose st"
  "m_stateQError (update_slerp st) = m_stateQError st"
  "m_Fk (update_slerp st) = m_Fk st"
  "m_Q (update_slerp st) = m_Q st"
  "m_R (update_slerp st) = m_R st"
  "m_slerpPower (update_slerp st) = m_slerpPower st"
  by (simp_all add: update_slerp_def Let_def)

lemma update_linear_frame [simp]:
  "m_debug (update_linear st) = m_debug st"
  "m_enableGyro (update_linear st) = m_enableGyro st"
  "m_enableAccel (update_linear st) = m_enableAccel st"
  "m_enableCompass (update_linear st) = m_enableCompass st"
  "m_compassValid (update_linear st) = m_compassValid st"
  "m_firstTime (update_linear st) = m_firstTime st"
  "m_timeDelta (update_linear st) = m_timeDelta st"
  "m_lastFusionTime (update_linear st) = m_lastFusionTime st"
  "m_sampleNumber (update_linear st) = m_sampleNumber st"
  "m_gyro (update_linear st) = m_gyro st"
  "m_accel (update_linear st) = m_accel st"
  "m_compass (update_linear st) = m_compass st"
  "m_measuredPose (update_linear st) = m_measuredPose st"
  "m_measuredQPose (update_linear st) = m_measuredQPose st"
  "m_fusionPose (update_linear st) = m_fusionPose st"
  "m_fusionQPose (update_linear st) = m_fusionQPose st"
  "m_Fk (update_linear st) = m_Fk st"
  "m_Q (update_linear st) = m_Q st"
  "m_R (update_linear st) = m_R st"
  "m_slerpPower (update_linear st) = m_slerpPower st"
  "m_rotationDelta (update_linear st) = m_rotationDelta st"
  "m_rotationPower (update_linear st) = m_rotationPower st"
  "m_rotationUnitVector (update_linear st) = m_rotationUnitVector st"
  by (simp_all add: update_linear_def Let_def)

lemma update_frame [simp]:
  "m_debug (update E st) = m_debug st"
  "m_enableGyro (update E st) = m_enableGyro st"
  "m_enableAccel (update E st) = m_enableAccel st"
  "m_enableCompass (update E st) = m_enableCompass st"
  "m_compassValid (update E st) = m_compassValid st"
  "m_firstTime (update E st) = m_firstTime st"
  "m_timeDelta (update E st) = m_timeDelta st"
  "m_lastFusionTime (update E st) = m_lastFusionTime st"
  "m_sampleNumber (update E st) = m_sampleNumber st"
  "m_gyro (update E st) = m_gyro st"
  "m_accel (update E st) = m_accel st"
  "m_compass (update E st) = m_compass st"
  "m_measuredPose (update E st) = m_measuredPose st"
  "m_measuredQPose (update E st) = m_measuredQPose st"
  "m_fusionPose (update E st) = m_fusionPose st"
  "m_fusionQPose (update E st) = m_fusionQPose st"
  "m_Fk (update E st) = m_Fk st"
  "m_Q (update E st) = m_Q st"
  "m_R (update E st) = m_R st"
  "m_slerpPower (update E st) = m_slerpPower st"
  by (simp_all add: update_def Let_def)

lemma update_stateQ:
  "m_stateQ (update E st) =
     normalizeQ (m_stateQ (if USE_SLERP E then update_slerp st else update_linear st))"
  by (simp add: update_def Let_def)

lemma update_linear_stateQ:
  "m_stateQ (update_linear st) =
     qadd (m_stateQ st)
       (qscale (if m_enableCompass st \<or> m_enableAccel st
                then qsub (m_measuredQPose st) (m_stateQ st) else RTQuaternion_new)
          (m_Q st * m_timeDelta st / (m_Q st * m_timeDelta st + m_R st)))"
  by (simp add: update_linear_def Let_def)

subsection \<open>The three paths through a call\<close>

lemma newIMUData_stale:
  assumes "\<not> m_firstTime st" and "timeDeltaOf E data st \<le> 0"
  shows "newIMUData E data settings st = (sampleTimed E data st, data)"
  using assms
  by (simp add: newIMUData_def Let_def sampleTimed_def sampleStored_def timeDeltaOf_def
      del: runCalculatePose_frame predict_frame update_frame)

lemma newIMUData_first:
  assumes "m_firstTime st"
  shows "newIMUData E data settings st =
    (let st1 = runCalculatePose E (accel data) (compass data) (m_compassAdjDeclination settings)
                 ((sampleStored data st)\<lparr>m_lastFusionTime := timestamp data\<rparr>);
         st2 = st1\<lparr>m_Fk := fill 0, m_stateQ := fromEuler E (m_measuredPose st1),
                   m_fusionQPose := fromEuler E (m_measuredPose st1),
                   m_fusionPose := m_measuredPose st1, m_firstTime := False\<rparr>
     in (st2, publish st2 data))"
  using assms by (simp add: newIMUData_def Let_def sampleStored_def)

lemma newIMUData_accepted:
  assumes "\<not> m_firstTime st" and "0 < timeDeltaOf E data st"
  shows "m_stateQ (fst (newIMUData E data settings st)) =
           m_stateQ (update E (samplePredicted E data settings st))"
    and "m_fusionQPose (fst (newIMUData E data settings st)) =
           m_stateQ (update E (samplePredicted E data settings st))"
    and "m_fusionPose (fst (newIMUData E data settings st)) =
           toEuler E (m_stateQ (update E (samplePredicted E data settings st)))"
    and "m_sampleNumber (fst (newIMUData E data settings st)) =
           m_sampleNumber (sampleStored data st)"
    and "m_timeDelta (fst (newIMUData E data settings st)) = timeDeltaOf E data st"
    and "snd (newIMUData E data settings st) =
           data\<lparr>fusionPoseValid := True, fusionQPoseValid := True,
                fusionPose := toEuler E (m_stateQ (update E (samplePredicted E data settings st))),
                fusionQPose := m_stateQ (update E (samplePredicted E data settings st))\<rparr>"
  using assms
  by (simp_all add: newIMUData_def Let_def samplePredicted_def sampleTimed_def sampleStored_def
      timeDeltaOf_def publish_def)

lemma newIMUData_sampleNumber:
  "m_sampleNumber (fst (newIMUData E data settings st)) =
     m_sampleNumber st + (if m_debug st then 2 else 1)"
proof (cases "m_firstTime st")
  case True
  then show ?thesis by (simp add: newIMUData_first Let_def sampleStored_def)
next
  case False
  show ?thesis
  proof (cases "timeDeltaOf E data st \<le> 0")
    case True
    with False show ?thesis
      by (simp add: newIMUData_stale sampleTimed_def sampleStored_def)
  next
    case False
    with \<open>\<not> m_firstTime st\<close> show ?thesis
      by (simp add: newIMUData_accepted sampleStored_def)
  qed
qed

lemma newIMUData_timeDelta:
  assumes "\<not> m_firstTime st"
  shows "m_timeDelta (fst (newIMUData E data settings st)) = timeDeltaOf E data st"
proof (cases "timeDeltaOf E data st \<le> 0")
  case True
  with assms show ?thesis by (simp add: newIMUData_stale sampleTimed_def)
next
  case False
  with assms show ?thesis by (simp add: newIMUData_accepted)
qed

subsection \<open>The sample environment\<close>

lemma eulerQ_level: "eulerQ level = \<lparr>scalar = 1, qx = 0, qy = 0, qz = 0\<rparr>"
  by (simp add: eulerQ_def level_def)

lemma eulerQ_south: "eulerQ south = \<lparr>scalar = 0, qx = 0, qy = 0, qz = 1\<rparr>"
  by (simp add: eulerQ_def south_def)


lemma created_fields:
  "m_firstTime (created E)" "\<not> m_debug (created E)" "m_enableGyro (created E)"
  "m_enableAccel (created E)" "m_enableCompass (created E)"
  "m_sampleNumber (created E) = 0"
  "m_Q (created E) = (if USE_SLERP E then 0 else 1 / 1000)"
  "m_R (created E) = (if USE_SLERP E then 0 else 1 / 2000)"
  "m_slerpPower (created E) = (if USE_SLERP E then 1 / 50 else 0)"
  "m_timeDelta (created E) = 0"
  "m_stateQError (created E) = RTQuaternion_new"
  "m_rotationPower (created E) = RTQuaternion_new"
  by (simp_all add: created_def RTFusionRTQF_new_def reset_def Let_def RTQF_QVALUE_def
      RTQF_RVALUE_def RTQF_SLERP_POWER_def)

lemma heldAt_fields [simp]:
  "USE_SLERP (heldAt slerp pose) = slerp"
  "tsDiff (heldAt slerp pose) a b = real_of_int (a - b)"
  "fromEuler (heldAt slerp pose) = eulerQ"
  "toEuler (heldAt slerp pose) = qEuler"
  "calculatePose (heldAt slerp pose) st acc c decl = (pose, eulerQ pose)"
  by (simp_all add: heldAt_def)

lemma running_fields:
  "\<not> m_firstTime (running slerp)" "\<not> m_debug (running slerp)" "m_enableGyro (running slerp)"
  "m_enableAccel (running slerp)" "m_enableCompass (running slerp)"
  "m_sampleNumber (running slerp) = 1"
  "m_lastFusionTime (running slerp) = 0"
  "m_Q (running slerp) = (if slerp then 0 else 1 / 1000)"
  "m_R (running slerp) = (if slerp then 0 else 1 / 2000)"
  "m_slerpPower (running slerp) = (if slerp then 1 / 50 else 0)"
  "m_stateQ (running slerp) = \<lparr>scalar = 1, qx = 0, qy = 0, qz = 0\<rparr>"
  "m_fusionQPose (running slerp) = \<lparr>scalar = 1, qx = 0, qy = 0, qz = 0\<rparr>"
  "m_fusionPose (running slerp) = level"
  "m_Fk (running slerp) = fill 0"
  by (simp_all add: running_def newIMUData_first Let_def sampleStored_def sample_def created_fields
      eulerQ_level)

subsection \<open>Accepted samples\<close>

lemma samplePredicted_fields:
  "m_Q (samplePredicted E data settings st) = m_Q st"
  "m_R (samplePredicted E data settings st) = m_R st"
  "m_slerpPower (samplePredicted E data settings st) = m_slerpPower st"
  "m_timeDelta (samplePredicted E data settings st) = timeDeltaOf E data st"
  "m_enableAccel (samplePredicted E data settings st) = m_enableAccel st"
  "m_enableCompass (samplePredicted E data settings st) = m_enableCompass st"
  "m_measuredQPose (samplePredicted E data settings st) =
     snd (calculatePose E (sampleTimed E data st) (accel data) (compass data)
            (m_compassAdjDeclination settings))"
  by (simp_all add: samplePredicted_def sampleTimed_def sampleStored_def)

lemma qscale_zero: "qscale RTQuaternion_new k = RTQuaternion_new"
  by (simp add: qscale_def RTQuaternion_new_def)

lemma qadd_zero: "qadd a RTQuaternion_new = a"
  by (simp add: qadd_def RTQuaternion_new_def)

lemma qscale_by_zero: "qscale a 0 = RTQuaternion_new"
  by (simp add: qscale_def RTQuaternion_new_def)

lemma predict_stateQ:
  "m_stateQ (predict st) =
     \<lparr>scalar = scalar (m_stateQ st)
         + (m_Fk st 0 0 * scalar (m_stateQ st) + - (vx (m_gyro st) / 2) * qx (m_stateQ st)
            + - (vy (m_gyro st) / 2) * qy (m_stateQ st)
            + - (vz (m_gyro st) / 2) * qz (m_stateQ st)) * m_timeDelta st,
      qx = qx (m_stateQ st)
         + (vx (m_gyro st) / 2 * scalar (m_stateQ st) + m_Fk st 1 1 * qx (m_stateQ st)
            + vz (m_gyro st) / 2 * qy (m_stateQ st)
            + - (vy (m_gyro st) / 2) * qz (m_stateQ st)) * m_timeDelta st,
      qy = qy (m_stateQ st)
         + (vy (m_gyro st) / 2 * scalar (m_stateQ st) + - (vz (m_gyro st) / 2) * qx (m_stateQ st)
            + m_Fk st 2 2 * qy (m_stateQ st)
            + vx (m_gyro st) / 2 * qz (m_stateQ st)) * m_timeDelta st,
      qz = qz (m_stateQ st)
         + (vz (m_gyro st) / 2 * scalar (m_stateQ st) + vy (m_gyro st) / 2 * qx (m_stateQ st)
            + - (vx (m_gyro st) / 2) * qy (m_stateQ st)
            + m_Fk st 3 3 * qz (m_stateQ st)) * m_timeDelta st\<rparr>"
  by (simp add: predict_def Let_def setVal_def mat_mul_q_def qadd_def qscale_def)

lemma accepted_stateQ:
  assumes "\<not> m_firstTime st" and "0 < timeDeltaOf E data st"
  shows "m_stateQ (fst (newIMUData E data settings st)) =
     normalizeQ (m_stateQ (if USE_SLERP E then update_slerp (samplePredicted E data settings st)
                           else update_linear (samplePredicted E data settings st)))"
  using assms by (simp add: newIMUData_accepted update_stateQ)

lemma accepted_linear_stateQ:
  assumes "\<not> USE_SLERP E" and "\<not> m_firstTime st" and "0 < timeDeltaOf E data st"
  shows "m_stateQ (fst (newIMUData E data settings st)) =
     normalizeQ (qadd (m_stateQ (samplePredicted E data settings st))
       (qscale (if m_enableCompass st \<or> m_enableAccel st
                then qsub (m_measuredQPose (samplePredicted E data settings st))
                       (m_stateQ (samplePredicted E data settings st))
                else RTQuaternion_new)
          (m_Q st * timeDeltaOf E data st / (m_Q st * timeDeltaOf E data st + m_R st))))"
  using assms
  by (simp add: accepted_stateQ update_linear_stateQ samplePredicted_fields(1,2,4,5,6))

text \<open>
  The value that the slerp update hands to \<^verbatim>\<open>acos\<close> is the scalar part of the
  normalized \<open>rotationDelta\<close>, as it is. With exact arithmetic it lies between \<open>-1\<close>
  and \<open>1\<close>.
\<close>

lemma scalar_normalizeQ_bounds: "- 1 \<le> scalar (normalizeQ a) \<and> scalar (normalizeQ a) \<le> 1"
proof (cases "qlength a = 0")
  case True
  then show ?thesis by (simp add: normalizeQ_def Let_def qlength_zero_iff)
next
  case False
  then have "qlength (normalizeQ a) = 1" by (simp add: qlength_normalizeQ)
  then show ?thesis using unit_scalar_bounds(1,2) by blast
qed

lemma update_slerp_theta:
  assumes "m_enableCompass st \<or> m_enableAccel st"
  shows "m_rotationDelta (update_slerp st) =
           normalizeQ (qmul (conjugate (m_stateQ st)) (m_measuredQPose st))"
    and "- 1 \<le> scalar (m_rotationDelta (update_slerp st))"
    and "scalar (m_rotationDelta (update_slerp st)) \<le> 1"
  using assms scalar_normalizeQ_bounds by (simp_all add: update_slerp_def Let_def)

subsection \<open>Runs in the sample environment\<close>

lemma predicted_from_rest:
  assumes "m_stateQ st = \<lparr>scalar = 1, qx = 0, qy = 0, qz = 0\<rparr>" and "m_Fk st = fill 0"
    and "m_enableGyro st" and "m_lastFusionTime st = 0"
  shows "m_stateQ (samplePredicted (heldAt slerp pose) (sample t rate) settings st) =
           \<lparr>scalar = 1, qx = vx rate / 2 * (real_of_int t / 1000000),
            qy = vy rate / 2 * (real_of_int t / 1000000),
            qz = vz rate / 2 * (real_of_int t / 1000000)\<rparr>"
    and "m_measuredQPose (samplePredicted (heldAt slerp pose) (sample t rate) settings st) =
           eulerQ pose"
    and "timeDeltaOf (heldAt slerp pose) (sample t rate) st = real_of_int t / 1000000"
  using assms
  by (simp_all add: samplePredicted_def predict_stateQ sampleTimed_def sampleStored_def
      timeDeltaOf_def sample_def fill_def)

lemma normalizeQ_identity:
  "normalizeQ \<lparr>scalar = 1, qx = 0, qy = 0, qz = 0\<rparr> = \<lparr>scalar = 1, qx = 0, qy = 0, qz = 0\<rparr>"
  by (simp add: normalizeQ_def Let_def qlength_def)

subsection \<open>The slerp update at full power\<close>

lemma normalizeQ_qscale_pos: "0 < k \<Longrightarrow> normalizeQ (qscale a k) = normalizeQ a"
proof (cases "qlength a = 0")
  case True
  then have "a = RTQuaternion_new" by (rule zero_length_eq)
  then show ?thesis by (simp add: qscale_zero)
next
  case False
  assume k: "0 < k"
  have "normalizeQ (qscale a k) = qscale (qscale a k) (1 / (k * qlength a))"
    using k by (simp add: normalizeQ_as_qscale qlength_qscale)
  also have "\<dots> = qscale a (1 / qlength a)"
    using k False by (simp add: qscale_def)
  finally show ?thesis by (simp add: normalizeQ_as_qscale)
qed

lemma slerp_full_power_nonzero:
  assumes en: "m_enableCompass st \<or> m_enableAccel st" and p: "m_slerpPower st = 1"
    and nz: "qlength (m_stateQ st) \<noteq> 0"
  shows "m_stateQ (update_slerp st) = qscale (normalizeQ (m_measuredQPose st)) (qlength (m_stateQ st))"
proof -
  let ?s = "m_stateQ st" and ?m = "m_measuredQPose st"
  let ?c = "qmul (conjugate ?s) ?m"
  let ?d = "normalizeQ ?c"
  have lenc: "qlength ?c = qlength ?s * qlength ?m"
    by (simp add: qlength_qmul qlength_conjugate)
  show ?thesis
  proof (cases "qlength ?m = 0")
    case True
    have mz: "?m = RTQuaternion_new"
      using True by (rule zero_length_eq)
    have "qlength ?c = 0" using True lenc by simp
    then have "?c = RTQuaternion_new" by (rule zero_length_eq)
    then have dz: "?d = RTQuaternion_new" by (simp add: normalizeQ_zero)
    have "m_stateQ (update_slerp st) = qmul ?s (normalizeQ RTQuaternion_new)"
      using en p by (simp add: update_slerp_stateQ Let_def dz slerp_degenerate)
    then show ?thesis
      by (simp add: mz normalizeQ_zero qmul_zero_right qscale_zero)
  next
    case False
    then have cnz: "qlength ?c \<noteq> 0" using lenc nz by simp
    then have du: "qlength ?d = 1" by (simp add: qlength_normalizeQ)
    have "m_stateQ (update_slerp st) =
        qmul ?s (normalizeQ
          \<lparr>scalar = cos (arccos (scalar ?d)),
           qx = sin (arccos (scalar ?d)) * vx (normalizeV \<lparr>vx = qx ?d, vy = qy ?d, vz = qz ?d\<rparr>),
           qy = sin (arccos (scalar ?d)) * vy (normalizeV \<lparr>vx = qx ?d, vy = qy ?d, vz = qz ?d\<rparr>),
           qz = sin (arccos (scalar ?d)) * vz (normalizeV \<lparr>vx = qx ?d, vy = qy ?d, vz = qz ?d\<rparr>)\<rparr>)"
      using en p by (simp add: update_slerp_stateQ Let_def)
    also have "\<dots> = qmul ?s (normalizeQ ?d)"
      by (simp only: rotation_full_power [OF du])
    also have "\<dots> = qmul ?s ?d" by (simp add: normalizeQ_idem)
    also have "\<dots> = qscale (qmul ?s ?c) (1 / (qlength ?s * qlength ?m))"
      using lenc by (simp add: normalizeQ_as_qscale qmul_qscale_right)
    also have "\<dots> = qscale ?m (qlength ?s * qlength ?s * (1 / (qlength ?s * qlength ?m)))"
      by (simp add: qmul_conjugate_cancel qscale_def)
    also have "\<dots> = qscale ?m (1 / qlength ?m * qlength ?s)"
      using nz by simp
    also have "\<dots> = qscale (normalizeQ ?m) (qlength ?s)"
      by (simp add: normalizeQ_as_qscale qscale_def)
    finally show ?thesis .
  qed
qed

lemma accepted_slerp_stateQ:
  assumes "USE_SLERP E" and "\<not> m_firstTime st" and "0 < timeDeltaOf E data st"
    and "m_enableCompass st \<or> m_enableAccel st"
  shows "m_stateQ (fst (newIMUData E data settings st)) =
    (let p = samplePredicted E data settings st;
         rotationDelta = normalizeQ (qmul (conjugate (m_stateQ p)) (m_measuredQPose p));
         theta = arccos (scalar rotationDelta);
         u = normalizeV \<lparr>vx = qx rotationDelta, vy = qy rotationDelta, vz = qz rotationDelta\<rparr>
     in normalizeQ (qmul (m_stateQ p)
          (normalizeQ \<lparr>scalar = cos (theta * m_slerpPower st),
                       qx = sin (theta * m_slerpPower st) * vx u,
                       qy = sin (theta * m_slerpPower st) * vy u,
                       qz = sin (theta * m_slerpPower st) * vz u\<rparr>)))"
  using assms
  by (simp add: accepted_stateQ update_slerp_stateQ samplePredicted_fields(3,5,6) Let_def)

subsection \<open>The length of \<open>stateQ\<close> through an accepted call\<close>









subsection \<open>More runs in the sample environment\<close>

lemma reportedAs_fields [simp]:
  "USE_SLERP (reportedAs slerp pose q) = slerp"
  "tsDiff (reportedAs slerp pose q) a b = real_of_int (a - b)"
  "fromEuler (reportedAs slerp pose q) = eulerQ"
  "toEuler (reportedAs slerp pose q) = qEuler"
  "calculatePose (reportedAs slerp pose q) st acc c decl = (pose, q)"
  by (simp_all add: reportedAs_def heldAt_def)



lemma normalizeQ_about_z:
  "normalizeQ \<lparr>scalar = 0, qx = 0, qy = 0, qz = 1\<rparr> = \<lparr>scalar = 0, qx = 0, qy = 0, qz = 1\<rparr>"
  by (simp add: normalizeQ_def Let_def qlength_def)

lemma normalizeV_about_z: "normalizeV \<lparr>vx = 0, vy = 0, vz = 1\<rparr> = \<lparr>vx = 0, vy = 0, vz = 1\<rparr>"
  by (simp add: normalizeV_def Let_def vlength_def)

lemma normalizeQ_turn_about_z:
  "normalizeQ \<lparr>scalar = cos a, qx = 0, qy = 0, qz = sin a\<rparr> =
     \<lparr>scalar = cos a, qx = 0, qy = 0, qz = sin a\<rparr>"
  by (simp add: normalizeQ_def Let_def qlength_def)

lemma update_slerp_towards_south:
  assumes s: "m_stateQ ps = \<lparr>scalar = 1, qx = 0, qy = 0, qz = 0\<rparr>"
    and m: "m_measuredQPose ps = \<lparr>scalar = 0, qx = 0, qy = 0, qz = 1\<rparr>"
    and en: "m_enableCompass ps \<or> m_enableAccel ps" and pw: "m_slerpPower ps = 1 / 50"
  shows "m_stateQ (update_slerp ps) = \<lparr>scalar = cos (pi / 100), qx = 0, qy = 0, qz = sin (pi / 100)\<rparr>"
proof -
  have d: "normalizeQ (qmul (conjugate (m_stateQ ps)) (m_measuredQPose ps)) =
      \<lparr>scalar = 0, qx = 0, qy = 0, qz = 1\<rparr>"
    by (simp add: s m qmul_def conjugate_def normalizeQ_about_z)
  have "m_stateQ (update_slerp ps) =
      qmul (m_stateQ ps)
        (normalizeQ \<lparr>scalar = cos (arccos 0 * (1 / 50)),
                     qx = sin (arccos 0 * (1 / 50)) * vx (normalizeV \<lparr>vx = 0, vy = 0, vz = 1\<rparr>),
                     qy = sin (arccos 0 * (1 / 50)) * vy (normalizeV \<lparr>vx = 0, vy = 0, vz = 1\<rparr>),
                     qz = sin (arccos 0 * (1 / 50)) * vz (normalizeV \<lparr>vx = 0, vy = 0, vz = 1\<rparr>)\<rparr>)"
    unfolding update_slerp_stateQ [OF en] Let_def d pw by simp
  also have "\<dots> = qmul (m_stateQ ps)
        (normalizeQ \<lparr>scalar = cos (pi / 100), qx = 0, qy = 0, qz = sin (pi / 100)\<rparr>)"
    unfolding normalizeV_about_z by simp
  also have "\<dots> = \<lparr>scalar = cos (pi / 100), qx = 0, qy = 0, qz = sin (pi / 100)\<rparr>"
    unfolding normalizeQ_turn_about_z s by (simp add: qmul_def)
  finally show ?thesis .
qed

lemma slerp_towards_south:
  assumes "m_stateQ st = \<lparr>scalar = 1, qx = 0, qy = 0, qz = 0\<rparr>" and "m_Fk st = fill 0"
    and "m_enableGyro st" and "m_lastFusionTime st = 0" and "\<not> m_firstTime st"
    and "m_enableCompass st \<or> m_enableAccel st" and "m_slerpPower st = 1 / 50"
  shows "m_stateQ (fst (newIMUData (heldAt True south) (sample 500000 still) noDeclination st)) =
           \<lparr>scalar = cos (pi / 100), qx = 0, qy = 0, qz = sin (pi / 100)\<rparr>"
proof -
  let ?p = "samplePredicted (heldAt True south) (sample 500000 still) noDeclination st"
  have dt: "0 < timeDeltaOf (heldAt True south) (sample 500000 still) st"
    using assms by (simp add: predicted_from_rest)
  have "m_stateQ (update_slerp ?p) =
      \<lparr>scalar = cos (pi / 100), qx = 0, qy = 0, qz = sin (pi / 100)\<rparr>"
    using assms
    by (intro update_slerp_towards_south)
      (simp_all add: predicted_from_rest eulerQ_south still_def samplePredicted_fields)
  then show ?thesis
    using assms(5) dt by (simp add: accepted_stateQ normalizeQ_turn_about_z)
qed

section \<open>The claims\<close>

subsection \<open>Samples that arrive with no time elapsed\<close>

text \<open>
  C1, as amended. A sample that is not the first and whose computed \<open>timeDelta\<close> is not
  positive is discarded without touching the estimate: the caller's record comes back as
  it was passed, and \<open>stateQ\<close>, the fusion and measured poses, the transition matrix,
  the scratch quaternions of \<^verbatim>\<open>update\<close>, \<open>firstTime\<close>, the enable and debug flags and
  the gains keep their values. (The claim speaks of every field of the filter; the
  stored raw inputs, \<open>timeDelta\<close>, \<open>lastFusionTime\<close> and \<open>sampleNumber\<close> are written
  before the test, see C10.) Since the hypothesis holds of every object that is not
  waiting for its first sample, a second call with a timestamp identical to that of the
  first leaves these fields as the first call set them.
\<close>

theorem stale_sample_keeps_estimate:
  assumes "\<not> m_firstTime st" and "timeDeltaOf E data st \<le> 0"
  shows "snd (newIMUData E data settings st) = data
    \<and> m_stateQ (fst (newIMUData E data settings st)) = m_stateQ st
    \<and> m_fusionPose (fst (newIMUData E data settings st)) = m_fusionPose st
    \<and> m_fusionQPose (fst (newIMUData E data settings st)) = m_fusionQPose st
    \<and> m_measuredPose (fst (newIMUData E data settings st)) = m_measuredPose st
    \<and> m_measuredQPose (fst (newIMUData E data settings st)) = m_measuredQPose st
    \<and> m_Fk (fst (newIMUData E data settings st)) = m_Fk st
    \<and> m_stateQError (fst (newIMUData E data settings st)) = m_stateQError st
    \<and> m_rotationDelta (fst (newIMUData E data settings st)) = m_rotationDelta st
    \<and> m_rotationPower (fst (newIMUData E data settings st)) = m_rotationPower st
    \<and> m_rotationUnitVector (fst (newIMUData E data settings st)) = m_rotationUnitVector st
    \<and> m_firstTime (fst (newIMUData E data settings st)) = m_firstTime st
    \<and> m_debug (fst (newIMUData E data settings st)) = m_debug st
    \<and> m_enableGyro (fst (newIMUData E data settings st)) = m_enableGyro st
    \<and> m_enableAccel (fst (newIMUData E data settings st)) = m_enableAccel st
    \<and> m_enableCompass (fst (newIMUData E data settings st)) = m_enableCompass st
    \<and> m_Q (fst (newIMUData E data settings st)) = m_Q st
    \<and> m_R (fst (newIMUData E data settings st)) = m_R st
    \<and> m_slerpPower (fst (newIMUData E data settings st)) = m_slerpPower st"
  using assms by (simp add: newIMUData_stale sampleTimed_def sampleStored_def)

text \<open>
  The filter after its first sample receives a second one with the same timestamp.
\<close>

theorem stale_sample_keeps_estimate_witness:
  "\<not> m_firstTime (running False)
   \<and> timeDeltaOf (heldAt False level) (sample 0 spin) (running False) \<le> 0
   \<and> snd (newIMUData (heldAt False level) (sample 0 spin) noDeclination (running False)) =
       sample 0 spin
   \<and> m_stateQ (fst (newIMUData (heldAt False level) (sample 0 spin) noDeclination
                       (running False))) = \<lparr>scalar = 1, qx = 0, qy = 0, qz = 0\<rparr>
   \<and> m_fusionPose (fst (newIMUData (heldAt False level) (sample 0 spin) noDeclination
                       (running False))) = level"
  using stale_sample_keeps_estimate
    [of "running False" "heldAt False level" "sample 0 spin" noDeclination]
  by (simp add: running_fields timeDeltaOf_def sample_def)

text \<open>
  C1 as it is stated fails on that call: the object that comes back is not the object
  that went in (its \<open>sampleNumber\<close> went from 1 to 2).
\<close>

theorem stale_sample_changes_object:
  "\<not> m_firstTime (running False)
   \<and> timeDeltaOf (heldAt False level) (sample 0 spin) (running False) \<le> 0
   \<and> fst (newIMUData (heldAt False level) (sample 0 spin) noDeclination (running False))
       \<noteq> running False"
proof -
  have "m_sampleNumber (fst (newIMUData (heldAt False level) (sample 0 spin) noDeclination
            (running False))) = 2"
    by (simp add: newIMUData_sampleNumber running_fields)
  then have "fst (newIMUData (heldAt False level) (sample 0 spin) noDeclination (running False))
       \<noteq> running False"
    using running_fields(6) [of False] by auto
  then show ?thesis
    by (simp add: running_fields timeDeltaOf_def sample_def)
qed

text \<open>
  C10. When a sample that is not the first is rejected because \<open>timeDelta \<le> 0\<close>, the
  filter has already stored the raw inputs (the gyro rate, or zero when the gyro is
  disabled; acceleration; compass reading and its validity), counted the sample (twice
  when \<open>m_debug\<close> is set) and moved \<open>lastFusionTime\<close> to the timestamp of the rejected
  sample, so that the \<open>timeDelta\<close> of the next call is measured from the rejected
  sample. \<open>stateQ\<close>, the fusion and measured poses and the caller's record are as before.
\<close>

theorem stale_sample_bookkeeping:
  assumes "\<not> m_firstTime st" and "timeDeltaOf E data st \<le> 0"
  shows "m_gyro (fst (newIMUData E data settings st)) =
           (if m_enableGyro st then gyro data else RTVector3_new)
    \<and> m_accel (fst (newIMUData E data settings st)) = accel data
    \<and> m_compass (fst (newIMUData E data settings st)) = compass data
    \<and> m_compassValid (fst (newIMUData E data settings st)) = compassValid data
    \<and> m_sampleNumber (fst (newIMUData E data settings st)) =
           m_sampleNumber st + (if m_debug st then 2 else 1)
    \<and> m_lastFusionTime (fst (newIMUData E data settings st)) = timestamp data
    \<and> m_timeDelta (fst (newIMUData E next_data next_settings
                            (fst (newIMUData E data settings st)))) =
           tsDiff E (timestamp next_data) (timestamp data) / 1000000
    \<and> m_stateQ (fst (newIMUData E data settings st)) = m_stateQ st
    \<and> m_fusionPose (fst (newIMUData E data settings st)) = m_fusionPose st
    \<and> m_fusionQPose (fst (newIMUData E data settings st)) = m_fusionQPose st
    \<and> m_measuredPose (fst (newIMUData E data settings st)) = m_measuredPose st
    \<and> m_measuredQPose (fst (newIMUData E data settings st)) = m_measuredQPose st
    \<and> snd (newIMUData E data settings st) = data"
proof -
  have st': "fst (newIMUData E data settings st) = sampleTimed E data st"
    using assms by (simp add: newIMUData_stale)
  have "\<not> m_firstTime (sampleTimed E data st)"
    using assms by (simp add: sampleTimed_def sampleStored_def)
  then have "m_timeDelta (fst (newIMUData E next_data next_settings (sampleTimed E data st))) =
      timeDeltaOf E next_data (sampleTimed E data st)"
    by (rule newIMUData_timeDelta)
  then have "m_timeDelta (fst (newIMUData E next_data next_settings
                (fst (newIMUData E data settings st)))) =
      tsDiff E (timestamp next_data) (timestamp data) / 1000000"
    by (simp add: st' timeDeltaOf_def sampleTimed_def)
  then show ?thesis
    using assms by (simp add: newIMUData_stale sampleTimed_def sampleStored_def)
qed

theorem stale_sample_bookkeeping_witness:
  "\<not> m_firstTime (running False)
   \<and> timeDeltaOf (heldAt False level) (sample 0 spin) (running False) \<le> 0
   \<and> m_gyro (fst (newIMUData (heldAt False level) (sample 0 spin) noDeclination
                     (running False))) = spin
   \<and> m_sampleNumber (fst (newIMUData (heldAt False level) (sample 0 spin) noDeclination
                     (running False))) = 2
   \<and> m_timeDelta (fst (newIMUData (heldAt False level) (sample 10000 spin) noDeclination
         (fst (newIMUData (heldAt False level) (sample 0 spin) noDeclination
                     (running False))))) = 1 / 100
   \<and> m_stateQ (fst (newIMUData (heldAt False level) (sample 0 spin) noDeclination
                     (running False))) = \<lparr>scalar = 1, qx = 0, qy = 0, qz = 0\<rparr>"
  using stale_sample_bookkeeping
    [where st = "running False" and E = "heldAt False level" and data = "sample 0 spin"
       and settings = noDeclination and next_data = "sample 10000 spin"
       and next_settings = noDeclination]
  by (simp add: running_fields timeDeltaOf_def sample_def)

subsection \<open>The first sample\<close>

text \<open>
  C6. On the first call (\<open>m_firstTime\<close> set) the filter takes the timestamp as its time
  base, sets every entry of the transition matrix to zero, stores the pose that
  \<open>calculatePose\<close> measures from this call's acceleration, compass reading and
  declination, sets \<open>stateQ\<close> from that pose by \<open>fromEuler\<close>, and publishes
  \<open>fusionPose = measuredPose\<close> and \<open>fusionQPose = stateQ\<close> in the object and in the caller's
  record, whose two validity flags it sets. Neither \<^verbatim>\<open>predict\<close> nor \<^verbatim>\<open>update\<close> runs: \<open>stateQ\<close>
  is exactly the converted pose, and \<open>timeDelta\<close> and the scratch quaternions of \<^verbatim>\<open>update\<close>
  keep their values.
\<close>

theorem first_sample_bootstrap:
  assumes "m_firstTime st"
  shows "m_lastFusionTime (fst (newIMUData E data settings st)) = timestamp data
    \<and> (\<forall>i j. m_Fk (fst (newIMUData E data settings st)) i j = 0)
    \<and> m_measuredPose (fst (newIMUData E data settings st)) =
           fst (calculatePose E ((sampleStored data st)\<lparr>m_lastFusionTime := timestamp data\<rparr>)
                  (accel data) (compass data) (m_compassAdjDeclination settings))
    \<and> m_measuredQPose (fst (newIMUData E data settings st)) =
           snd (calculatePose E ((sampleStored data st)\<lparr>m_lastFusionTime := timestamp data\<rparr>)
                  (accel data) (compass data) (m_compassAdjDeclination settings))
    \<and> m_stateQ (fst (newIMUData E data settings st)) =
           fromEuler E (m_measuredPose (fst (newIMUData E data settings st)))
    \<and> m_fusionPose (fst (newIMUData E data settings st)) =
           m_measuredPose (fst (newIMUData E data settings st))
    \<and> m_fusionQPose (fst (newIMUData E data settings st)) =
           m_stateQ (fst (newIMUData E data settings st))
    \<and> snd (newIMUData E data settings st) =
           data\<lparr>fusionPoseValid := True, fusionQPoseValid := True,
                fusionPose := m_measuredPose (fst (newIMUData E data settings st)),
                fusionQPose := m_stateQ (fst (newIMUData E data settings st))\<rparr>
    \<and> \<not> m_firstTime (fst (newIMUData E data settings st))
    \<and> m_timeDelta (fst (newIMUData E data settings st)) = m_timeDelta st
    \<and> m_stateQError (fst (newIMUData E data settings st)) = m_stateQError st
    \<and> m_rotationPower (fst (newIMUData E data settings st)) = m_rotationPower st"
  using assms by (simp add: newIMUData_first Let_def publish_def sampleStored_def fill_def)

text \<open>
  A first call on an object whose matrix holds 7 everywhere: the entries are 0
  afterwards.
\<close>

theorem first_sample_bootstrap_witness:
  "m_firstTime ((created (heldAt False level))\<lparr>m_Fk := (\<lambda>i j. 7)\<rparr>)
   \<and> m_Fk ((created (heldAt False level))\<lparr>m_Fk := (\<lambda>i j. 7)\<rparr>) 0 0 = 7
   \<and> m_Fk (fst (newIMUData (heldAt False level) (sample 0 spin) noDeclination
                   ((created (heldAt False level))\<lparr>m_Fk := (\<lambda>i j. 7)\<rparr>))) 0 0 = 0
   \<and> m_Fk (fst (newIMUData (heldAt False level) (sample 0 spin) noDeclination
                   ((created (heldAt False level))\<lparr>m_Fk := (\<lambda>i j. 7)\<rparr>))) 2 3 = 0
   \<and> m_stateQ (fst (newIMUData (heldAt False level) (sample 0 spin) noDeclination
                   ((created (heldAt False level))\<lparr>m_Fk := (\<lambda>i j. 7)\<rparr>))) =
       \<lparr>scalar = 1, qx = 0, qy = 0, qz = 0\<rparr>
   \<and> snd (newIMUData (heldAt False level) (sample 0 spin) noDeclination
                   ((created (heldAt False level))\<lparr>m_Fk := (\<lambda>i j. 7)\<rparr>)) =
       (sample 0 spin)\<lparr>fusionPoseValid := True, fusionQPoseValid := True, fusionPose := level,
                        fusionQPose := \<lparr>scalar = 1, qx = 0, qy = 0, qz = 0\<rparr>\<rparr>"
  using first_sample_bootstrap
    [of "(created (heldAt False level))\<lparr>m_Fk := (\<lambda>i j. 7)\<rparr>" "heldAt False level"
        "sample 0 spin" noDeclination]
  by (simp add: created_fields eulerQ_level)

subsection \<open>The predict step\<close>

text \<open>
  C3. \<^verbatim>\<open>predict\<close> writes half of each gyro component, with the signs of the quaternion
  derivative, into the twelve off-diagonal entries of \<open>Fk\<close> (the diagonal is left as it
  is), and replaces \<open>stateQ\<close> by \<open>stateQ + (Fk * stateQ) * timeDelta\<close>. The result is this
  sum and nothing else: it is not normalized.
\<close>

theorem predict_first_order:
  "m_Fk (predict st) 0 1 = - (vx (m_gyro st) / 2)
   \<and> m_Fk (predict st) 0 2 = - (vy (m_gyro st) / 2)
   \<and> m_Fk (predict st) 0 3 = - (vz (m_gyro st) / 2)
   \<and> m_Fk (predict st) 1 0 = vx (m_gyro st) / 2
   \<and> m_Fk (predict st) 1 2 = vz (m_gyro st) / 2
   \<and> m_Fk (predict st) 1 3 = - (vy (m_gyro st) / 2)
   \<and> m_Fk (predict st) 2 0 = vy (m_gyro st) / 2
   \<and> m_Fk (predict st) 2 1 = - (vz (m_gyro st) / 2)
   \<and> m_Fk (predict st) 2 3 = vx (m_gyro st) / 2
   \<and> m_Fk (predict st) 3 0 = vz (m_gyro st) / 2
   \<and> m_Fk (predict st) 3 1 = vy (m_gyro st) / 2
   \<and> m_Fk (predict st) 3 2 = - (vx (m_gyro st) / 2)
   \<and> (\<forall>i. m_Fk (predict st) i i = m_Fk st i i)
   \<and> m_stateQ (predict st) =
       qadd (m_stateQ st) (qscale (mat_mul_q (m_Fk (predict st)) (m_stateQ st)) (m_timeDelta st))"
  by (simp add: predict_def Let_def setVal_def)

text \<open>
  From the identity, a turn of one radian per second for one second gives a quaternion
  of length \<open>sqrt (5/4)\<close>.
\<close>

theorem predict_first_order_witness:
  "m_Fk (predict ((running False)\<lparr>m_gyro := spin, m_timeDelta := 1\<rparr>)) 1 0 = 1 / 2
   \<and> m_Fk (predict ((running False)\<lparr>m_gyro := spin, m_timeDelta := 1\<rparr>)) 0 1 = - (1 / 2)
   \<and> m_stateQ (predict ((running False)\<lparr>m_gyro := spin, m_timeDelta := 1\<rparr>)) =
       \<lparr>scalar = 1, qx = 1 / 2, qy = 0, qz = 0\<rparr>
   \<and> qlength (m_stateQ (predict ((running False)\<lparr>m_gyro := spin, m_timeDelta := 1\<rparr>))) \<noteq> 1"
  using predict_first_order [of "(running False)\<lparr>m_gyro := spin, m_timeDelta := 1\<rparr>"]
  by (simp add: running_fields spin_def fill_def mat_mul_q_def qadd_def qscale_def qlength_def)

subsection \<open>The update step\<close>

text \<open>
  C4. Without \<^verbatim>\<open>USE_SLERP\<close>, on an accepted sample that is not the first, with the
  accelerometer or the compass enabled, the new \<open>stateQ\<close> is the normalization of
  \<open>stateQ + (measuredQPose - stateQ) * (qt / (qt + R))\<close> with \<open>qt = Q * timeDelta\<close>, where
  \<open>stateQ\<close> and \<open>measuredQPose\<close> are those of the object that \<^verbatim>\<open>update\<close> receives (\<open>p\<close>) and
  the difference and the product are taken component by component. With \<open>Q = 0\<close> (and
  \<open>R\<close> not zero, so that the quotient is defined) the factor is \<open>0\<close> and the new \<open>stateQ\<close>
  is the normalized predicted one.
\<close>

theorem linear_update_blend:
  assumes "\<not> USE_SLERP E" and "\<not> m_firstTime st" and "0 < timeDeltaOf E data st"
    and "m_enableCompass st \<or> m_enableAccel st"
  shows
    "(let p = samplePredicted E data settings st;
          qt = m_Q st * timeDeltaOf E data st;
          k = qt / (qt + m_R st)
      in m_stateQ (fst (newIMUData E data settings st)) =
           normalizeQ (qadd (m_stateQ p) (qscale (qsub (m_measuredQPose p) (m_stateQ p)) k))
         \<and> qadd (m_stateQ p) (qscale (qsub (m_measuredQPose p) (m_stateQ p)) k) =
             \<lparr>scalar = scalar (m_stateQ p) + (scalar (m_measuredQPose p) - scalar (m_stateQ p)) * k,
              qx = qx (m_stateQ p) + (qx (m_measuredQPose p) - qx (m_stateQ p)) * k,
              qy = qy (m_stateQ p) + (qy (m_measuredQPose p) - qy (m_stateQ p)) * k,
              qz = qz (m_stateQ p) + (qz (m_measuredQPose p) - qz (m_stateQ p)) * k\<rparr>
         \<and> (m_Q st = 0 \<and> m_R st \<noteq> 0 \<longrightarrow>
               k = 0 \<and> m_stateQ (fst (newIMUData E data settings st)) = normalizeQ (m_stateQ p)))"
proof -
  let ?p = "samplePredicted E data settings st"
  have main: "m_stateQ (fst (newIMUData E data settings st)) =
      normalizeQ (qadd (m_stateQ ?p)
       (qscale (qsub (m_measuredQPose ?p) (m_stateQ ?p))
          (m_Q st * timeDeltaOf E data st / (m_Q st * timeDeltaOf E data st + m_R st))))"
    using assms by (simp add: accepted_linear_stateQ)
  have zero: "m_Q st = 0 \<Longrightarrow>
      m_stateQ (fst (newIMUData E data settings st)) = normalizeQ (m_stateQ ?p)"
    using main by (simp add: qscale_by_zero qadd_zero)
  show ?thesis
    unfolding Let_def
  proof (intro conjI impI)
    show "m_stateQ (fst (newIMUData E data settings st)) =
      normalizeQ (qadd (m_stateQ ?p)
       (qscale (qsub (m_measuredQPose ?p) (m_stateQ ?p))
          (m_Q st * timeDeltaOf E data st / (m_Q st * timeDeltaOf E data st + m_R st))))"
      by (rule main)
  next
    show "qadd (m_stateQ ?p) (qscale (qsub (m_measuredQPose ?p) (m_stateQ ?p))
          (m_Q st * timeDeltaOf E data st / (m_Q st * timeDeltaOf E data st + m_R st))) =
      \<lparr>scalar = scalar (m_stateQ ?p) + (scalar (m_measuredQPose ?p) - scalar (m_stateQ ?p))
          * (m_Q st * timeDeltaOf E data st / (m_Q st * timeDeltaOf E data st + m_R st)),
       qx = qx (m_stateQ ?p) + (qx (m_measuredQPose ?p) - qx (m_stateQ ?p))
          * (m_Q st * timeDeltaOf E data st / (m_Q st * timeDeltaOf E data st + m_R st)),
       qy = qy (m_stateQ ?p) + (qy (m_measuredQPose ?p) - qy (m_stateQ ?p))
          * (m_Q st * timeDeltaOf E data st / (m_Q st * timeDeltaOf E data st + m_R st)),
       qz = qz (m_stateQ ?p) + (qz (m_measuredQPose ?p) - qz (m_stateQ ?p))
          * (m_Q st * timeDeltaOf E data st / (m_Q st * timeDeltaOf E data st + m_R st))\<rparr>"
      by (simp add: qadd_def qscale_def qsub_def)
  next
    assume "m_Q st = 0 \<and> m_R st \<noteq> 0"
    then show "m_Q st * timeDeltaOf E data st / (m_Q st * timeDeltaOf E data st + m_R st) = 0"
      by simp
  next
    assume "m_Q st = 0 \<and> m_R st \<noteq> 0"
    then show "m_stateQ (fst (newIMUData E data settings st)) = normalizeQ (m_stateQ ?p)"
      using zero by simp
  qed
qed

theorem linear_update_blend_witness:
  "\<not> USE_SLERP (heldAt False south) \<and> \<not> m_firstTime (running False)
   \<and> 0 < timeDeltaOf (heldAt False south) (sample 500000 still) (running False)
   \<and> (m_enableCompass (running False) \<or> m_enableAccel (running False))
   \<and> m_stateQ (fst (newIMUData (heldAt False south) (sample 500000 still) noDeclination
                       (running False))) =
       normalizeQ \<lparr>scalar = 1 / 2, qx = 0, qy = 0, qz = 1 / 2\<rparr>
   \<and> m_Q ((running False)\<lparr>m_Q := 0\<rparr>) = 0 \<and> m_R ((running False)\<lparr>m_Q := 0\<rparr>) \<noteq> 0
   \<and> m_stateQ (fst (newIMUData (heldAt False south) (sample 500000 still) noDeclination
                       ((running False)\<lparr>m_Q := 0\<rparr>))) =
       \<lparr>scalar = 1, qx = 0, qy = 0, qz = 0\<rparr>"
  using linear_update_blend
      [of "heldAt False south" "running False" "sample 500000 still" noDeclination]
    linear_update_blend
      [of "heldAt False south" "(running False)\<lparr>m_Q := 0\<rparr>" "sample 500000 still" noDeclination]
  by (simp add: Let_def running_fields predicted_from_rest eulerQ_south still_def
      normalizeQ_identity)

text \<open>
  C5. With \<^verbatim>\<open>USE_SLERP\<close>, on every accepted sample after the first with the accelerometer
  or the compass enabled, where \<open>stateQ\<close> is the state that \<^verbatim>\<open>update\<close> receives from
  \<^verbatim>\<open>predict\<close> and is not zero: if \<open>slerpPower = 0\<close> the correction leaves \<open>stateQ\<close> as it
  is, and the call ends with its normalization; if \<open>slerpPower = 1\<close> the call ends with
  \<open>stateQ\<close> the normalized \<open>measuredQPose\<close>, which is \<open>measuredQPose\<close> itself when that has
  length one, since \<open>stateQ * (conjugate stateQ * measuredQPose)\<close> is \<open>measuredQPose\<close>
  times the squared length of \<open>stateQ\<close>. The state that \<^verbatim>\<open>predict\<close> hands over need not
  have length one, since the sensor may have turned; it is not zero whenever the call
  started from a \<open>stateQ\<close> of length one (lemma \<open>samplePredicted_length\<close>).
\<close>

theorem slerp_power_bounds:
  assumes "USE_SLERP E" and "\<not> m_firstTime st" and "0 < timeDeltaOf E data st"
    and "m_enableCompass st \<or> m_enableAccel st"
    and "qlength (m_stateQ (samplePredicted E data settings st)) \<noteq> 0"
  shows
    "(let p = samplePredicted E data settings st
      in (m_slerpPower st = 0 \<longrightarrow>
            m_stateQ (update_slerp p) = m_stateQ p
            \<and> m_stateQ (fst (newIMUData E data settings st)) = normalizeQ (m_stateQ p))
         \<and> (m_slerpPower st = 1 \<longrightarrow>
            m_stateQ (fst (newIMUData E data settings st)) = normalizeQ (m_measuredQPose p)
            \<and> (qlength (m_measuredQPose p) = 1 \<longrightarrow>
                 m_stateQ (fst (newIMUData E data settings st)) = m_measuredQPose p))
         \<and> qmul (m_stateQ p) (qmul (conjugate (m_stateQ p)) (m_measuredQPose p)) =
             qscale (m_measuredQPose p) (qlength (m_stateQ p) * qlength (m_stateQ p)))"
proof -
  let ?p = "samplePredicted E data settings st"
  have en: "m_enableCompass ?p \<or> m_enableAccel ?p"
    using assms(4) by (simp add: samplePredicted_fields)
  have acc: "m_stateQ (fst (newIMUData E data settings st)) = normalizeQ (m_stateQ (update_slerp ?p))"
    using assms(1,2,3) by (simp add: accepted_stateQ)
  have pos: "0 < qlength (m_stateQ ?p)"
    using assms(5) qlength_nonneg [of "m_stateQ ?p"] by simp
  show ?thesis
    unfolding Let_def
  proof (intro conjI impI)
    assume "m_slerpPower st = 0"
    then have "m_slerpPower ?p = 0" by (simp add: samplePredicted_fields)
    with en show z: "m_stateQ (update_slerp ?p) = m_stateQ ?p" by (rule slerp_zero_power)
    show "m_stateQ (fst (newIMUData E data settings st)) = normalizeQ (m_stateQ ?p)"
      by (simp add: acc z)
  next
    assume "m_slerpPower st = 1"
    then have "m_slerpPower ?p = 1" by (simp add: samplePredicted_fields)
    with en have "m_stateQ (update_slerp ?p) =
        qscale (normalizeQ (m_measuredQPose ?p)) (qlength (m_stateQ ?p))"
      using assms(5) by (rule slerp_full_power_nonzero)
    then show full: "m_stateQ (fst (newIMUData E data settings st)) =
        normalizeQ (m_measuredQPose ?p)"
      using pos by (simp add: acc normalizeQ_qscale_pos normalizeQ_idem)
    assume "qlength (m_measuredQPose ?p) = 1"
    then show "m_stateQ (fst (newIMUData E data settings st)) = m_measuredQPose ?p"
      using full by (simp add: normalizeQ_unit)
  next
    show "qmul (m_stateQ ?p) (qmul (conjugate (m_stateQ ?p)) (m_measuredQPose ?p)) =
             qscale (m_measuredQPose ?p) (qlength (m_stateQ ?p) * qlength (m_stateQ ?p))"
      by (rule qmul_conjugate_cancel)
  qed
qed

text \<open>
  A sensor that turns about its x axis while the measured heading is south: \<^verbatim>\<open>predict\<close>
  gives \<open>(1, 1/200, 0, 0)\<close>, which is not of length one. At power 1 the call ends at
  the measured \<open>(0, 0, 0, 1)\<close>, at power 0 at the normalized prediction.
\<close>

theorem slerp_power_bounds_witness:
  "USE_SLERP (heldAt True south)
   \<and> \<not> m_firstTime ((running True)\<lparr>m_slerpPower := 1\<rparr>)
   \<and> 0 < timeDeltaOf (heldAt True south) (sample 10000 spin) ((running True)\<lparr>m_slerpPower := 1\<rparr>)
   \<and> (m_enableCompass ((running True)\<lparr>m_slerpPower := 1\<rparr>)
        \<or> m_enableAccel ((running True)\<lparr>m_slerpPower := 1\<rparr>))
   \<and> m_stateQ (samplePredicted (heldAt True south) (sample 10000 spin) noDeclination
                 ((running True)\<lparr>m_slerpPower := 1\<rparr>)) =
       \<lparr>scalar = 1, qx = 1 / 200, qy = 0, qz = 0\<rparr>
   \<and> qlength (m_stateQ (samplePredicted (heldAt True south) (sample 10000 spin) noDeclination
                 ((running True)\<lparr>m_slerpPower := 1\<rparr>))) \<noteq> 0
   \<and> m_stateQ (fst (newIMUData (heldAt True south) (sample 10000 spin) noDeclination
                       ((running True)\<lparr>m_slerpPower := 1\<rparr>))) =
       \<lparr>scalar = 0, qx = 0, qy = 0, qz = 1\<rparr>
   \<and> m_stateQ (fst (newIMUData (heldAt True south) (sample 10000 spin) noDeclination
                       ((running True)\<lparr>m_slerpPower := 0\<rparr>))) =
       normalizeQ \<lparr>scalar = 1, qx = 1 / 200, qy = 0, qz = 0\<rparr>"
  using slerp_power_bounds
      [of "heldAt True south" "(running True)\<lparr>m_slerpPower := 1\<rparr>" "sample 10000 spin"
          noDeclination]
    slerp_power_bounds
      [of "heldAt True south" "(running True)\<lparr>m_slerpPower := 0\<rparr>" "sample 10000 spin"
          noDeclination]
  by (simp add: Let_def running_fields predicted_from_rest eulerQ_south spin_def
      qlength_zero_iff normalizeQ_about_z)

text \<open>
  C7, as amended. On an accepted sample the correction is skipped, and the new \<open>stateQ\<close>
  is the normalized result of the gyro integration, when the accelerometer and the
  compass are both disabled (without \<^verbatim>\<open>USE_SLERP\<close>: provided the divisor \<open>qt + R\<close> is not
  zero). With either of them enabled the correction towards \<open>measuredQPose\<close> is applied:
  without \<^verbatim>\<open>USE_SLERP\<close> the blend of C4; with it the product of the predicted state with
  the rotation by \<open>theta * slerpPower\<close> about the axis of
  \<open>conjugate stateQ * measuredQPose\<close>, where \<open>theta\<close> is the arc cosine of the scalar part
  of that product, normalized.
\<close>

theorem correction_skipped_when_both_disabled:
  assumes "\<not> m_firstTime st" and "0 < timeDeltaOf E data st"
  shows
    "(let p = samplePredicted E data settings st;
          qt = m_Q st * timeDeltaOf E data st;
          rotationDelta = normalizeQ (qmul (conjugate (m_stateQ p)) (m_measuredQPose p));
          theta = arccos (scalar rotationDelta);
          u = normalizeV \<lparr>vx = qx rotationDelta, vy = qy rotationDelta, vz = qz rotationDelta\<rparr>
      in (\<not> m_enableAccel st \<and> \<not> m_enableCompass st \<and> (USE_SLERP E \<or> qt + m_R st \<noteq> 0) \<longrightarrow>
            m_stateQ (fst (newIMUData E data settings st)) = normalizeQ (m_stateQ p))
         \<and> ((m_enableAccel st \<or> m_enableCompass st) \<and> \<not> USE_SLERP E \<longrightarrow>
            m_stateQ (fst (newIMUData E data settings st)) =
              normalizeQ (qadd (m_stateQ p)
                (qscale (qsub (m_measuredQPose p) (m_stateQ p)) (qt / (qt + m_R st)))))
         \<and> ((m_enableAccel st \<or> m_enableCompass st) \<and> USE_SLERP E \<longrightarrow>
            m_stateQ (fst (newIMUData E data settings st)) =
              normalizeQ (qmul (m_stateQ p)
                (normalizeQ \<lparr>scalar = cos (theta * m_slerpPower st),
                             qx = sin (theta * m_slerpPower st) * vx u,
                             qy = sin (theta * m_slerpPower st) * vy u,
                             qz = sin (theta * m_slerpPower st) * vz u\<rparr>))))"
proof -
  let ?p = "samplePredicted E data settings st"
  have off_slerp: "m_stateQ (update_slerp ?p) = m_stateQ ?p"
    if "\<not> m_enableAccel st" "\<not> m_enableCompass st"
    using that by (simp add: update_slerp_def samplePredicted_fields(5,6))
  show ?thesis
    unfolding Let_def
  proof (intro conjI impI)
    assume h: "\<not> m_enableAccel st \<and> \<not> m_enableCompass st
        \<and> (USE_SLERP E \<or> m_Q st * timeDeltaOf E data st + m_R st \<noteq> 0)"
    show "m_stateQ (fst (newIMUData E data settings st)) = normalizeQ (m_stateQ ?p)"
    proof (cases "USE_SLERP E")
      case True
      then show ?thesis using assms h by (simp add: accepted_stateQ off_slerp)
    next
      case False
      then show ?thesis using assms h
        by (simp add: accepted_linear_stateQ qscale_zero qadd_zero)
    qed
  next
    assume "(m_enableAccel st \<or> m_enableCompass st) \<and> \<not> USE_SLERP E"
    then show "m_stateQ (fst (newIMUData E data settings st)) =
        normalizeQ (qadd (m_stateQ ?p) (qscale (qsub (m_measuredQPose ?p) (m_stateQ ?p))
          (m_Q st * timeDeltaOf E data st / (m_Q st * timeDeltaOf E data st + m_R st))))"
      using assms by (auto simp add: accepted_linear_stateQ)
  next
    assume h: "(m_enableAccel st \<or> m_enableCompass st) \<and> USE_SLERP E"
    then have "m_enableCompass st \<or> m_enableAccel st" and "USE_SLERP E" by auto
    from accepted_slerp_stateQ [OF this(2) assms this(1), of settings]
    show "m_stateQ (fst (newIMUData E data settings st)) =
        normalizeQ (qmul (m_stateQ ?p)
          (normalizeQ
            \<lparr>scalar = cos (arccos (scalar (normalizeQ (qmul (conjugate (m_stateQ ?p))
                              (m_measuredQPose ?p)))) * m_slerpPower st),
             qx = sin (arccos (scalar (normalizeQ (qmul (conjugate (m_stateQ ?p))
                              (m_measuredQPose ?p)))) * m_slerpPower st)
                  * vx (normalizeV
                      \<lparr>vx = qx (normalizeQ (qmul (conjugate (m_stateQ ?p)) (m_measuredQPose ?p))),
                       vy = qy (normalizeQ (qmul (conjugate (m_stateQ ?p)) (m_measuredQPose ?p))),
                       vz = qz (normalizeQ (qmul (conjugate (m_stateQ ?p)) (m_measuredQPose ?p)))\<rparr>),
             qy = sin (arccos (scalar (normalizeQ (qmul (conjugate (m_stateQ ?p))
                              (m_measuredQPose ?p)))) * m_slerpPower st)
                  * vy (normalizeV
                      \<lparr>vx = qx (normalizeQ (qmul (conjugate (m_stateQ ?p)) (m_measuredQPose ?p))),
                       vy = qy (normalizeQ (qmul (conjugate (m_stateQ ?p)) (m_measuredQPose ?p))),
                       vz = qz (normalizeQ (qmul (conjugate (m_stateQ ?p)) (m_measuredQPose ?p)))\<rparr>),
             qz = sin (arccos (scalar (normalizeQ (qmul (conjugate (m_stateQ ?p))
                              (m_measuredQPose ?p)))) * m_slerpPower st)
                  * vz (normalizeV
                      \<lparr>vx = qx (normalizeQ (qmul (conjugate (m_stateQ ?p)) (m_measuredQPose ?p))),
                       vy = qy (normalizeQ (qmul (conjugate (m_stateQ ?p)) (m_measuredQPose ?p))),
                       vz = qz (normalizeQ (qmul (conjugate (m_stateQ ?p)) (m_measuredQPose ?p)))\<rparr>)\<rparr>))"
      by (simp add: Let_def)
  qed
qed

text \<open>
  A filter at rest, level and looking north, measures a heading of half a turn. With
  both sources disabled the state stays at \<open>(1, 0, 0, 0)\<close> in both builds. With the
  compass alone enabled it moves: to the normalized \<open>(1/2, 0, 0, 1/2)\<close> without
  \<^verbatim>\<open>USE_SLERP\<close>, and by a fiftieth of the quarter turn \<open>theta\<close> with it.
\<close>

theorem correction_skipped_when_both_disabled_witness:
  "\<not> m_firstTime ((running False)\<lparr>m_enableAccel := False, m_enableCompass := False\<rparr>)
   \<and> 0 < timeDeltaOf (heldAt False south) (sample 500000 still)
           ((running False)\<lparr>m_enableAccel := False, m_enableCompass := False\<rparr>)
   \<and> m_Q (running False) * timeDeltaOf (heldAt False south) (sample 500000 still)
           ((running False)\<lparr>m_enableAccel := False, m_enableCompass := False\<rparr>)
       + m_R (running False) \<noteq> 0
   \<and> m_stateQ (fst (newIMUData (heldAt False south) (sample 500000 still) noDeclination
         ((running False)\<lparr>m_enableAccel := False, m_enableCompass := False\<rparr>))) =
       \<lparr>scalar = 1, qx = 0, qy = 0, qz = 0\<rparr>
   \<and> m_stateQ (fst (newIMUData (heldAt False south) (sample 500000 still) noDeclination
         ((running False)\<lparr>m_enableAccel := False\<rparr>))) =
       normalizeQ \<lparr>scalar = 1 / 2, qx = 0, qy = 0, qz = 1 / 2\<rparr>
   \<and> m_stateQ (fst (newIMUData (heldAt True south) (sample 500000 still) noDeclination
         ((running True)\<lparr>m_enableAccel := False, m_enableCompass := False\<rparr>))) =
       \<lparr>scalar = 1, qx = 0, qy = 0, qz = 0\<rparr>
   \<and> m_stateQ (fst (newIMUData (heldAt True south) (sample 500000 still) noDeclination
         ((running True)\<lparr>m_enableAccel := False\<rparr>))) =
       \<lparr>scalar = cos (pi / 100), qx = 0, qy = 0, qz = sin (pi / 100)\<rparr>"
  using correction_skipped_when_both_disabled
      [of "(running False)\<lparr>m_enableAccel := False, m_enableCompass := False\<rparr>"
          "heldAt False south" "sample 500000 still" noDeclination]
    correction_skipped_when_both_disabled
      [of "(running False)\<lparr>m_enableAccel := False\<rparr>"
          "heldAt False south" "sample 500000 still" noDeclination]
    correction_skipped_when_both_disabled
      [of "(running True)\<lparr>m_enableAccel := False, m_enableCompass := False\<rparr>"
          "heldAt True south" "sample 500000 still" noDeclination]
    correction_skipped_when_both_disabled
      [of "(running True)\<lparr>m_enableAccel := False\<rparr>"
          "heldAt True south" "sample 500000 still" noDeclination]
  by (simp add: Let_def running_fields predicted_from_rest eulerQ_south still_def
      normalizeQ_identity qadd_def qscale_def qsub_def
      qmul_def conjugate_def normalizeQ_about_z normalizeV_about_z normalizeQ_turn_about_z)

text \<open>
  C7 as it is stated fails in both builds: with the accelerometer disabled and the
  compass enabled, the same filter moves \<open>stateQ\<close> towards the measurement; the gyro
  integration alone would have left it where it was.
\<close>

theorem accel_off_compass_on_corrects:
  "\<not> m_enableAccel ((running False)\<lparr>m_enableAccel := False\<rparr>)
   \<and> m_enableCompass ((running False)\<lparr>m_enableAccel := False\<rparr>)
   \<and> \<not> m_firstTime ((running False)\<lparr>m_enableAccel := False\<rparr>)
   \<and> 0 < timeDeltaOf (heldAt False south) (sample 500000 still)
           ((running False)\<lparr>m_enableAccel := False\<rparr>)
   \<and> m_stateQ (fst (newIMUData (heldAt False south) (sample 500000 still) noDeclination
                       ((running False)\<lparr>m_enableAccel := False\<rparr>)))
       \<noteq> normalizeQ (m_stateQ (samplePredicted (heldAt False south) (sample 500000 still)
                       noDeclination ((running False)\<lparr>m_enableAccel := False\<rparr>)))
   \<and> \<not> m_enableAccel ((running True)\<lparr>m_enableAccel := False\<rparr>)
   \<and> m_enableCompass ((running True)\<lparr>m_enableAccel := False\<rparr>)
   \<and> \<not> m_firstTime ((running True)\<lparr>m_enableAccel := False\<rparr>)
   \<and> 0 < timeDeltaOf (heldAt True south) (sample 500000 still)
           ((running True)\<lparr>m_enableAccel := False\<rparr>)
   \<and> m_stateQ (fst (newIMUData (heldAt True south) (sample 500000 still) noDeclination
                       ((running True)\<lparr>m_enableAccel := False\<rparr>)))
       \<noteq> normalizeQ (m_stateQ (samplePredicted (heldAt True south) (sample 500000 still)
                       noDeclination ((running True)\<lparr>m_enableAccel := False\<rparr>)))"
proof -
  let ?st = "(running False)\<lparr>m_enableAccel := False\<rparr>"
  let ?E = "heldAt False south"
  let ?st' = "(running True)\<lparr>m_enableAccel := False\<rparr>"
  let ?E' = "heldAt True south"
  have dt: "0 < timeDeltaOf ?E (sample 500000 still) ?st"
    by (simp add: predicted_from_rest running_fields)
  have dt': "0 < timeDeltaOf ?E' (sample 500000 still) ?st'"
    by (simp add: predicted_from_rest running_fields)
  have "m_stateQ (fst (newIMUData ?E (sample 500000 still) noDeclination ?st)) =
      normalizeQ \<lparr>scalar = 1 / 2, qx = 0, qy = 0, qz = 1 / 2\<rparr>"
    using dt
    by (simp add: accepted_linear_stateQ running_fields predicted_from_rest eulerQ_south
        still_def qadd_def qscale_def qsub_def)
  then have "qz (m_stateQ (fst (newIMUData ?E (sample 500000 still) noDeclination ?st))) \<noteq> 0"
    by (simp add: normalizeQ_def Let_def qlength_def)
  moreover have "qz (normalizeQ (m_stateQ (samplePredicted ?E (sample 500000 still)
                       noDeclination ?st))) = 0"
    by (simp add: running_fields predicted_from_rest still_def normalizeQ_identity)
  ultimately have lin: "m_stateQ (fst (newIMUData ?E (sample 500000 still) noDeclination ?st))
       \<noteq> normalizeQ (m_stateQ (samplePredicted ?E (sample 500000 still) noDeclination ?st))"
    by auto
  have "0 < sin (pi / 100)"
    by (rule sin_gt_zero) simp_all
  moreover have "m_stateQ (fst (newIMUData ?E' (sample 500000 still) noDeclination ?st')) =
      \<lparr>scalar = cos (pi / 100), qx = 0, qy = 0, qz = sin (pi / 100)\<rparr>"
    by (rule slerp_towards_south) (simp_all add: running_fields)
  ultimately have
    "qz (m_stateQ (fst (newIMUData ?E' (sample 500000 still) noDeclination ?st'))) \<noteq> 0"
    by simp
  moreover have "qz (normalizeQ (m_stateQ (samplePredicted ?E' (sample 500000 still)
                       noDeclination ?st'))) = 0"
    by (simp add: running_fields predicted_from_rest still_def normalizeQ_identity)
  ultimately have sl: "m_stateQ (fst (newIMUData ?E' (sample 500000 still) noDeclination ?st'))
       \<noteq> normalizeQ (m_stateQ (samplePredicted ?E' (sample 500000 still) noDeclination ?st'))"
    by auto
  show ?thesis
    using dt dt' lin sl by (simp add: running_fields)
qed

subsection \<open>The length of the state quaternion\<close>




subsection \<open>The debug flag\<close>

text \<open>
  C8 says that the debug flag changes nothing in the filter, \<open>sampleNumber\<close> included.
  The code breaks this: the trace line of \<^verbatim>\<open>newIMUData\<close> has \<^verbatim>\<open>m_sampleNumber++\<close> as an
  argument, and the statement after it increments the counter again. For every object,
  sample and path through the call, the counter goes up by two with \<open>m_debug\<close> set and
  by one without.
\<close>

theorem debug_flag_counts_twice:
  "m_sampleNumber (fst (newIMUData E data settings (st\<lparr>m_debug := True\<rparr>))) =
     m_sampleNumber st + 2
   \<and> m_sampleNumber (fst (newIMUData E data settings (st\<lparr>m_debug := False\<rparr>))) =
     m_sampleNumber st + 1"
  by (simp add: newIMUData_sampleNumber)

theorem debug_flag_counts_twice_witness:
  "m_sampleNumber (fst (newIMUData (heldAt False level) (sample 0 spin) noDeclination
                          ((created (heldAt False level))\<lparr>m_debug := True\<rparr>))) = 2
   \<and> m_sampleNumber (fst (newIMUData (heldAt False level) (sample 0 spin) noDeclination
                          ((created (heldAt False level))\<lparr>m_debug := False\<rparr>))) = 1"
  using debug_flag_counts_twice
    [of "heldAt False level" "sample 0 spin" noDeclination "created (heldAt False level)"]
  by (simp add: created_fields)

end
